theory Spec2Isabelle
  imports Complex_Main "HOL-Library.Word"
begin

section \<open>The layer-stack engine of the parallel Transformer\<close>

text \<open>
  This theory embeds \<^verbatim>\<open>onmt/modules/ParallelTransformer/Models.py\<close>: the encoder and
  decoder stacks, their three execution modes (full forward, grow-aware forward,
  incremental step), layer growth and the causal mask.

  Tensors are values of an abstract type \<open>'t\<close> and module parameters (state dictionaries)
  of an abstract type \<open>'p\<close>. Every call into the numeric runtime, and every call into a
  module of the repository that is not part of the two source files (the layers, the
  pre/post-processing unit, the positional encoder, word dropout), is a field of the
  record \<open>runtime\<close>, which all operations take as their first argument. Such a call is
  taken to return on the arguments it receives, and pseudo-random draws (dropout,
  initial weights) are functions of their arguments. The errors that the model raises
  are those of the stacks' own control flow: a missing attribute, an index out of range,
  subscripting \<^verbatim>\<open>None\<close>, a failed assertion, stacking an empty list, an unbound local.

  Token batches are lists of rows of integer ids. A stacked tensor (the memory bank,
  the stacked step buffers) is the list of its slices along the first dimension.
\<close>

subsection \<open>Data\<close>

type_synonym tokens = "int list list"

datatype error =
    AttributeError
  | IndexError
  | TypeError
  | AssertionError
  | RuntimeError
  | UnboundLocalError

text \<open>
  What becomes of the activations of a call in a forward pass: an ordinary call of a module
  retains them for the backward pass; a checkpointed call discards them and recomputes
  them there.
\<close>

datatype activations = Retained | Recomputed

text \<open>
  What an execution does besides returning: that layer \<open>i\<close> of a full forward pass ran,
  with what the call that ran it reports of its activations; that a layer ran in a grow-mode
  pass; which query a layer's incremental step received; and which previous hidden state
  the recurrent time transformer received.
\<close>

datatype 't event =
    Ran nat activations
  | NoGrad nat
  | New int
  | LayerStep nat 't
  | Recurrent "'t option"

record Constants =
  PAD :: int
  checkpointing :: int

text \<open>
  Modelled from the spec: the class \<^verbatim>\<open>PrePostProcessing\<close> is not among the source files. A
  unit is constructed from the model dimension, a dropout rate and the sequence of its
  operations, and owns its state, the parameters of its normalization.
\<close>

record 'p PrePostProcessing =
  pp_d_model :: nat
  pp_dropout_p :: real
  pp_sequence :: string
  state_dict :: 'p

text \<open>\<^verbatim>\<open>load_state_dict\<close> copies the values of the given state dictionary into the module.\<close>

definition load_state_dict :: "'p PrePostProcessing \<Rightarrow> 'p \<Rightarrow> 'p PrePostProcessing" where
  "load_state_dict m sd = m\<lparr>state_dict := sd\<rparr>"

text \<open>
  Modelled from the spec: the classes \<^verbatim>\<open>ParallelEncoderLayer\<close> and \<^verbatim>\<open>DecoderLayer\<close> are not
  among the source files. A layer owns the pre-processing unit of its self-attention, which
  growth overwrites, and its other parameters.
\<close>

record 'p Layer =
  preprocess_attn :: "'p PrePostProcessing"
  parameters :: 'p

text \<open>
  Modelled from the spec: the class \<^verbatim>\<open>PositionalEncoding\<close> is not among the source files.
  A positional encoder holds a table for the positions below its maximum length
  \<^verbatim>\<open>len_max\<close>; \<^verbatim>\<open>renew\<close> regenerates the table for a new maximum length, discarding the old
  one.
\<close>

record PositionalEncoding =
  pe_d_model :: nat
  len_max :: nat

definition renew :: "PositionalEncoding \<Rightarrow> nat \<Rightarrow> PositionalEncoding" where
  "renew pe new_len = pe\<lparr>len_max := new_len\<rparr>"

text \<open>
  The attribute \<^verbatim>\<open>time_transformer\<close> is the positional encoder object that the stack
  also keeps as \<^verbatim>\<open>positional_encoder\<close>, or a recurrent module of the stack's own.
\<close>

datatype 'p time_module = SamePositionalEncoder | GRU 'p | LSTM 'p

text \<open>A call of the time transformer returns a tensor, or the pair of a recurrent module.\<close>

datatype 't time_out = Tensor 't | Tuple 't 't

record Options =
  opt_model_size :: nat
  opt_n_heads :: nat
  opt_inner_size :: nat
  opt_layers :: int
  opt_dropout :: real
  opt_word_dropout :: real
  opt_attn_dropout :: real
  opt_emb_dropout :: real
  opt_time :: string
  opt_version :: real

text \<open>
  The attributes of a stack. An attribute that \<^verbatim>\<open>__init__\<close> may leave unset is an
  option; \<open>'q\<close> is the type of \<^verbatim>\<open>postprocess_layer\<close>, which the encoder always sets and
  the decoder sets for version 1.0 only.
\<close>

record ('p, 'q) Stack =
  model_size :: nat
  n_heads :: nat
  inner_size :: nat
  layers :: int
  dropout :: real
  word_dropout :: real
  attn_dropout :: real
  emb_dropout :: real
  time :: string
  version :: real
  word_lut :: 'p
  time_transformer :: "'p time_module option"
  preprocess_layer :: "'p PrePostProcessing"
  postprocess_layer :: 'q
  positional_encoder :: "PositionalEncoding option"
  layer_modules :: "'p Layer list"
  new_modules :: "'p Layer list option"
  pretrained_point :: "int option"
  training :: bool

type_synonym 'p ParallelTransformerEncoder = "('p, 'p PrePostProcessing) Stack"

record 'p ParallelTransformerDecoder = "('p, 'p PrePostProcessing option) Stack" +
  mask_buffer :: "8 word list list"

subsection \<open>The numeric runtime and the modules outside the two source files\<close>

record ('t, 'p) runtime =
  new_Embedding :: "nat \<Rightarrow> nat \<Rightarrow> int \<Rightarrow> 'p"
  new_GRU :: "nat \<Rightarrow> nat \<Rightarrow> nat \<Rightarrow> 'p"
  new_LSTM :: "nat \<Rightarrow> nat \<Rightarrow> nat \<Rightarrow> 'p"
  new_PrePostProcessing :: "nat \<Rightarrow> real \<Rightarrow> string \<Rightarrow> bool option \<Rightarrow> 'p PrePostProcessing"
  new_ParallelEncoderLayer :: "nat \<Rightarrow> nat \<Rightarrow> real \<Rightarrow> nat \<Rightarrow> real \<Rightarrow> 'p Layer"
  new_DecoderLayer :: "nat \<Rightarrow> nat \<Rightarrow> real \<Rightarrow> nat \<Rightarrow> real \<Rightarrow> 'p Layer"
  embedded_dropout :: "'p \<Rightarrow> tokens \<Rightarrow> real \<Rightarrow> 't"
  embedding :: "'p \<Rightarrow> tokens \<Rightarrow> 't"
  mul_sqrt :: "'t \<Rightarrow> nat \<Rightarrow> 't"
  positional_encoding :: "PositionalEncoding \<Rightarrow> 't \<Rightarrow> nat option \<Rightarrow> 't"
  recurrent :: "'p \<Rightarrow> 't \<Rightarrow> 't option \<Rightarrow> 't \<times> 't"
  prepost :: "'p PrePostProcessing \<Rightarrow> 't \<Rightarrow> 't"
  eq_unsqueeze :: "tokens \<Rightarrow> int \<Rightarrow> 't"
  ne :: "tokens \<Rightarrow> int \<Rightarrow> 't"
  add_mask :: "'t \<Rightarrow> 8 word list list \<Rightarrow> 't"
  gt_zero :: "'t \<Rightarrow> 't"
  one_minus_squeeze :: "'t \<Rightarrow> 't"
  last_row :: "'t \<Rightarrow> 't"
  index_one :: "'t \<Rightarrow> 't"
  size_one :: "'t \<Rightarrow> nat"
  encoder_layer :: "'p Layer \<Rightarrow> 't \<times> 't \<times> 't \<Rightarrow> 't \<times> 't"
  decoder_layer :: "'p Layer \<Rightarrow> 't \<times> 't \<times> 't \<times> 't \<times> 't \<times> 't \<Rightarrow> 't \<times> 't"
  decoder_layer_step :: "'p Layer \<Rightarrow> 't \<Rightarrow> 't \<Rightarrow> 't \<Rightarrow> 't \<Rightarrow> 't option \<Rightarrow> 't \<times> 't \<times> 't"

text \<open>\<^verbatim>\<open>custom_layer(module)\<close> returns a function that calls the module on its arguments.\<close>

definition custom_layer :: "('a \<Rightarrow> 'b) \<Rightarrow> 'a \<Rightarrow> 'b" where
  "custom_layer layer = (\<lambda>args. layer args)"

text \<open>
  Modelled from the spec: \<^verbatim>\<open>onmt.modules.Checkpoint.checkpoint\<close> is not among the source
  files; it runs the function on the arguments, its outputs being bit-identical to the
  non-checkpointed path, does not retain the activations and recomputes them on the
  backward pass.
\<close>

definition checkpoint :: "('a \<Rightarrow> 'b) \<Rightarrow> 'a \<Rightarrow> 'b \<times> activations" where
  "checkpoint run_function args = (run_function args, Recomputed)"

text \<open>An ordinary call \<^verbatim>\<open>layer(...)\<close> of a module returns its outputs and retains the activations.\<close>

definition call :: "('a \<Rightarrow> 'b) \<Rightarrow> 'a \<Rightarrow> 'b \<times> activations" where
  "call layer args = (layer args, Retained)"

text \<open>\<^verbatim>\<open>torch.stack\<close> of a list of tensors; an empty list is refused.\<close>

definition stack :: "'t list \<Rightarrow> error + 't list" where
  "stack tensors = (if tensors = [] then Inl RuntimeError else Inr tensors)"

text \<open>
  Indexing a module list or a stacked tensor with a Python integer: an index outside
  \<open>-len \<le> idx < len\<close> raises, and a negative index has the length added.
\<close>

definition item :: "'a list \<Rightarrow> int \<Rightarrow> error + 'a" where
  "item xs idx =
     (if idx < - int (length xs) \<or> int (length xs) \<le> idx then Inl IndexError
      else if idx < 0 then Inr (xs ! nat (idx + int (length xs)))
      else Inr (xs ! nat idx))"

subsection \<open>Embedding and time encoding, shared by the forward passes\<close>

text \<open>\<^verbatim>\<open>self.time_transformer(emb)\<close>.\<close>

definition call_time_transformer ::
  "('t, 'p) runtime \<Rightarrow> ('p, 'q, 'z) Stack_scheme \<Rightarrow> 't \<Rightarrow> error + 't time_out" where
  "call_time_transformer T self emb =
     (case time_transformer self of
        None \<Rightarrow> Inl AttributeError
      | Some SamePositionalEncoder \<Rightarrow>
          (case positional_encoder self of
             None \<Rightarrow> Inl TypeError
           | Some pe \<Rightarrow> Inr (Tensor (positional_encoding T pe emb None)))
      | Some (GRU w) \<Rightarrow> (case recurrent T w emb None of (out, h) \<Rightarrow> Inr (Tuple out h))
      | Some (LSTM w) \<Rightarrow> (case recurrent T w emb None of (out, h) \<Rightarrow> Inr (Tuple out h)))"

text \<open>\<^verbatim>\<open>if isinstance(emb, tuple): emb = emb[0]\<close>.\<close>

fun untuple :: "'t time_out \<Rightarrow> 't" where
  "untuple (Tensor emb) = emb"
| "untuple (Tuple out h) = out"

text \<open>
  The first lines of every forward pass: word dropout on the embedding, scaling under
  positional encoding, the time transformer, the pre-processing unit.
\<close>

definition embed :: "('t, 'p) runtime \<Rightarrow> ('p, 'q, 'z) Stack_scheme \<Rightarrow> tokens \<Rightarrow> error + 't" where
  "embed T self input =
     (let emb = embedded_dropout T (word_lut self) input
                  (if training self then word_dropout self else 0);
          emb = (if time self = ''positional_encoding'' then mul_sqrt T emb (model_size self)
                 else emb)
      in case call_time_transformer T self emb of
           Inl e \<Rightarrow> Inl e
         | Inr r \<Rightarrow> Inr (prepost T (preprocess_layer self) (untuple r)))"

subsection \<open>The encoder stack\<close>

text \<open>
  The layer loop of \<^verbatim>\<open>ParallelTransformerEncoder.forward\<close>: \<open>n\<close> is
  \<^verbatim>\<open>len(self.layer_modules)\<close>, \<open>i\<close> the index of the first layer of the list still to
  run. The trace entry of a layer carries what the call that ran it returned beside the
  outputs.
\<close>

fun encoder_loop ::
  "('t, 'p) runtime \<Rightarrow> Constants \<Rightarrow> bool \<Rightarrow> nat \<Rightarrow> nat \<Rightarrow> 'p Layer list \<Rightarrow> 't \<Rightarrow> 't \<Rightarrow> 't \<Rightarrow>
     't list \<Rightarrow> 't event list \<Rightarrow> 't \<times> 't list \<times> 't event list" where
  "encoder_loop T C train n i [] context mask_src pad_mask memory_bank trace =
     (context, memory_bank, trace)"
| "encoder_loop T C train n i (layer # rest) context mask_src pad_mask memory_bank trace =
     (let (r, kept) =
            (if int n - int i \<le> checkpointing C \<and> train
             then checkpoint (custom_layer (encoder_layer T layer)) (context, mask_src, pad_mask)
             else call (encoder_layer T layer) (context, mask_src, pad_mask));
          (context', norm_input) = r;
          memory_bank' = (if i > 0 then memory_bank @ [norm_input] else memory_bank)
      in encoder_loop T C train n (Suc i) rest context' mask_src pad_mask memory_bank'
           (trace @ [Ran i kept]))"

text \<open>\<^verbatim>\<open>ParallelTransformerEncoder.__init__\<close>; \<open>dicts_size\<close> is \<^verbatim>\<open>dicts.size()\<close>.\<close>

definition time_transformer_init ::
  "('t, 'p) runtime \<Rightarrow> Options \<Rightarrow> 'p time_module option" where
  "time_transformer_init T opt =
     (if opt_time opt = ''positional_encoding'' then Some SamePositionalEncoder
      else if opt_time opt = ''gru''
        then Some (GRU (new_GRU T (opt_model_size opt) (opt_model_size opt) 1))
      else if opt_time opt = ''lstm''
        then Some (LSTM (new_LSTM T (opt_model_size opt) (opt_model_size opt) 1))
      else None)"

definition encoder_init ::
  "('t, 'p) runtime \<Rightarrow> Constants \<Rightarrow> Options \<Rightarrow> nat \<Rightarrow> PositionalEncoding option \<Rightarrow>
     'p ParallelTransformerEncoder" where
  "encoder_init T C opt dicts_size positional_encoder' =
     \<lparr> model_size = opt_model_size opt,
       n_heads = opt_n_heads opt,
       inner_size = opt_inner_size opt,
       layers = opt_layers opt,
       dropout = opt_dropout opt,
       word_dropout = opt_word_dropout opt,
       attn_dropout = opt_attn_dropout opt,
       emb_dropout = opt_emb_dropout opt,
       time = opt_time opt,
       version = opt_version opt,
       word_lut = new_Embedding T dicts_size (opt_model_size opt) (PAD C),
       time_transformer = time_transformer_init T opt,
       preprocess_layer =
         new_PrePostProcessing T (opt_model_size opt) (opt_emb_dropout opt) ''d'' (Some False),
       postprocess_layer = new_PrePostProcessing T (opt_model_size opt) 0 ''n'' None,
       positional_encoder = positional_encoder',
       layer_modules =
         replicate (nat (opt_layers opt))
           (new_ParallelEncoderLayer T (opt_n_heads opt) (opt_model_size opt) (opt_dropout opt)
              (opt_inner_size opt) (opt_attn_dropout opt)),
       new_modules = None,
       pretrained_point = None,
       training = True \<rparr>"

text \<open>
  \<^verbatim>\<open>ParallelTransformerEncoder.add_layers\<close>: the loop over \<^verbatim>\<open>range(n_new_layer)\<close>, then
  the method.
\<close>

fun encoder_add_loop ::
  "('t, 'p) runtime \<Rightarrow> nat list \<Rightarrow> 'p ParallelTransformerEncoder \<Rightarrow>
     'p ParallelTransformerEncoder" where
  "encoder_add_loop T [] self = self"
| "encoder_add_loop T (i # is) self =
     (let layer = new_ParallelEncoderLayer T (n_heads self) (model_size self) (dropout self)
                    (inner_size self) (attn_dropout self);
          (layer, self) =
            (if i = 0
             then (layer\<lparr>preprocess_attn :=
                           load_state_dict (preprocess_attn layer)
                             (state_dict (postprocess_layer self))\<rparr>,
                   self\<lparr>postprocess_layer :=
                          new_PrePostProcessing T (model_size self) 0 ''n'' None\<rparr>)
             else (layer, self))
      in encoder_add_loop T is (self\<lparr>layer_modules := layer_modules self @ [layer]\<rparr>))"

definition encoder_add_layers ::
  "('t, 'p) runtime \<Rightarrow> 'p ParallelTransformerEncoder \<Rightarrow> int \<Rightarrow> 'p ParallelTransformerEncoder" where
  "encoder_add_layers T self n_new_layer =
     encoder_add_loop T [0 ..< nat n_new_layer]
       (self\<lparr>new_modules := Some [], layers := layers self + n_new_layer\<rparr>)"

text \<open>\<^verbatim>\<open>mark_pretrained\<close>, the same method in both stacks.\<close>

definition mark_pretrained :: "('p, 'q, 'z) Stack_scheme \<Rightarrow> ('p, 'q, 'z) Stack_scheme" where
  "mark_pretrained self = self\<lparr>pretrained_point := Some (layers self)\<rparr>"

text \<open>\<^verbatim>\<open>ParallelTransformerEncoder.forward\<close> with \<^verbatim>\<open>grow=False\<close>.\<close>

definition encoder_forward_full ::
  "('t, 'p) runtime \<Rightarrow> Constants \<Rightarrow> 'p ParallelTransformerEncoder \<Rightarrow> tokens \<Rightarrow>
     't event list \<times> (error + 't list \<times> 't)" where
  "encoder_forward_full T C self input =
     (case embed T self input of
        Inl e \<Rightarrow> ([], Inl e)
      | Inr emb \<Rightarrow>
          (let mask_src = eq_unsqueeze T input (PAD C);
               pad_mask = ne T input (PAD C);
               (context, memory_bank, trace) =
                  encoder_loop T C (training self) (length (layer_modules self)) 0
                    (layer_modules self) emb mask_src pad_mask [] [];
               context = prepost T (postprocess_layer self) context;
               memory_bank = memory_bank @ [context]
           in case stack memory_bank of
                Inl e \<Rightarrow> (trace, Inl e)
              | Inr memory_bank \<Rightarrow> (trace, Inr (memory_bank, mask_src))))"

text \<open>
  \<^verbatim>\<open>ParallelTransformerEncoder.forward_grow\<close>: the loop over the pretrained layers, run
  without gradient tracking, and the loop over the layers added since.
\<close>

fun encoder_pretrained_loop ::
  "('t, 'p) runtime \<Rightarrow> 'p Layer list \<Rightarrow> nat list \<Rightarrow> 't \<Rightarrow> 't \<Rightarrow> 't \<Rightarrow> 't list \<Rightarrow> 't event list \<Rightarrow>
     't event list \<times> (error + 't \<times> 't list)" where
  "encoder_pretrained_loop T modules [] context mask_src pad_mask memory_bank trace =
     (trace, Inr (context, memory_bank))"
| "encoder_pretrained_loop T modules (i # is) context mask_src pad_mask memory_bank trace =
     (case item modules (int i) of
        Inl e \<Rightarrow> (trace, Inl e)
      | Inr layer \<Rightarrow>
          (let (context', norm_input) = encoder_layer T layer (context, mask_src, pad_mask);
               memory_bank' = (if i > 0 then memory_bank @ [norm_input] else memory_bank)
           in encoder_pretrained_loop T modules is context' mask_src pad_mask memory_bank'
                (trace @ [NoGrad i])))"

fun encoder_new_loop ::
  "('t, 'p) runtime \<Rightarrow> 'p Layer list \<Rightarrow> int \<Rightarrow> nat list \<Rightarrow> 't \<Rightarrow> 't \<Rightarrow> 't \<Rightarrow> 't list \<Rightarrow>
     't event list \<Rightarrow> 't event list \<times> (error + 't \<times> 't list)" where
  "encoder_new_loop T modules point [] context mask_src pad_mask memory_bank trace =
     (trace, Inr (context, memory_bank))"
| "encoder_new_loop T modules point (i # is) context mask_src pad_mask memory_bank trace =
     (case item modules (point + int i) of
        Inl e \<Rightarrow> (trace, Inl e)
      | Inr layer \<Rightarrow>
          (let (context', norm_input) = encoder_layer T layer (context, mask_src, pad_mask)
           in encoder_new_loop T modules point is context' mask_src pad_mask
                (memory_bank @ [norm_input]) (trace @ [New (point + int i)])))"

definition encoder_forward_grow ::
  "('t, 'p) runtime \<Rightarrow> Constants \<Rightarrow> 'p ParallelTransformerEncoder \<Rightarrow> tokens \<Rightarrow>
     't event list \<times> (error + 't list \<times> 't)" where
  "encoder_forward_grow T C self input =
     (case embed T self input of
        Inl e \<Rightarrow> ([], Inl e)
      | Inr emb \<Rightarrow>
          (let mask_src = eq_unsqueeze T input (PAD C);
               pad_mask = ne T input (PAD C)
           in case pretrained_point self of
                None \<Rightarrow> ([], Inl AttributeError)
              | Some point \<Rightarrow>
                  (case encoder_pretrained_loop T (layer_modules self) [0 ..< nat point] emb
                          mask_src pad_mask [] [] of
                     (trace, Inl e) \<Rightarrow> (trace, Inl e)
                   | (trace, Inr (context, memory_bank)) \<Rightarrow>
                       (case encoder_new_loop T (layer_modules self) point
                               [0 ..< nat (layers self - point)] context mask_src pad_mask
                               memory_bank trace of
                          (trace, Inl e) \<Rightarrow> (trace, Inl e)
                        | (trace, Inr (context, memory_bank)) \<Rightarrow>
                            (let context = prepost T (postprocess_layer self) context;
                                 memory_bank = memory_bank @ [context]
                             in case stack memory_bank of
                                  Inl e \<Rightarrow> (trace, Inl e)
                                | Inr memory_bank \<Rightarrow> (trace, Inr (memory_bank, mask_src)))))))"

definition encoder_forward ::
  "('t, 'p) runtime \<Rightarrow> Constants \<Rightarrow> 'p ParallelTransformerEncoder \<Rightarrow> tokens \<Rightarrow> bool \<Rightarrow>
     't event list \<times> (error + 't list \<times> 't)" where
  "encoder_forward T C self input grow =
     (if grow then encoder_forward_grow T C self input
      else encoder_forward_full T C self input)"

subsection \<open>The decoder stack: construction, causal mask, growth\<close>

text \<open>\<^verbatim>\<open>np.ones((n, n))\<close>, \<^verbatim>\<open>np.triu(m, k)\<close> and \<^verbatim>\<open>.astype('uint8')\<close>.\<close>

definition ones :: "nat \<Rightarrow> nat \<Rightarrow> real list list" where
  "ones rows cols = replicate rows (replicate cols 1)"

text \<open>\<^verbatim>\<open>triu\<close> keeps the entries on and above the \<open>k\<close>-th diagonal and zeroes the others.\<close>

definition triu :: "real list list \<Rightarrow> int \<Rightarrow> real list list" where
  "triu m k =
     map (\<lambda>(i, row). map (\<lambda>(j, x). if int j - int i \<ge> k then x else 0) (enumerate 0 row))
       (enumerate 0 m)"

definition astype_uint8 :: "real list list \<Rightarrow> 8 word list list" where
  "astype_uint8 m = map (map (\<lambda>x. word_of_int \<lfloor>x\<rfloor>)) m"

text \<open>The mask that \<^verbatim>\<open>__init__\<close> and \<^verbatim>\<open>renew_buffer\<close> register under the name \<^verbatim>\<open>mask\<close>.\<close>

definition causal_mask :: "nat \<Rightarrow> 8 word list list" where
  "causal_mask len = astype_uint8 (triu (ones len len) 1)"

text \<open>
  \<^verbatim>\<open>ParallelTransformerDecoder.__init__\<close>. Reading \<^verbatim>\<open>len_max\<close> of a positional encoder
  that is \<^verbatim>\<open>None\<close> raises.
\<close>

definition decoder_init ::
  "('t, 'p) runtime \<Rightarrow> Constants \<Rightarrow> Options \<Rightarrow> nat \<Rightarrow> PositionalEncoding option \<Rightarrow>
     error + 'p ParallelTransformerDecoder" where
  "decoder_init T C opt dicts_size positional_encoder' =
     (case positional_encoder' of
        None \<Rightarrow> Inl AttributeError
      | Some pe \<Rightarrow>
          Inr \<lparr> model_size = opt_model_size opt,
                n_heads = opt_n_heads opt,
                inner_size = opt_inner_size opt,
                layers = opt_layers opt,
                dropout = opt_dropout opt,
                word_dropout = opt_word_dropout opt,
                attn_dropout = opt_attn_dropout opt,
                emb_dropout = opt_emb_dropout opt,
                time = opt_time opt,
                version = opt_version opt,
                word_lut = new_Embedding T dicts_size (opt_model_size opt) (PAD C),
                time_transformer = time_transformer_init T opt,
                preprocess_layer =
                  new_PrePostProcessing T (opt_model_size opt) (opt_emb_dropout opt) ''d''
                    (Some False),
                postprocess_layer =
                  (if opt_version opt = 1
                   then Some (new_PrePostProcessing T (opt_model_size opt) 0 ''n'' None)
                   else None),
                positional_encoder = positional_encoder',
                layer_modules =
                  replicate (nat (opt_layers opt))
                    (new_DecoderLayer T (opt_n_heads opt) (opt_model_size opt) (opt_dropout opt)
                       (opt_inner_size opt) (opt_attn_dropout opt)),
                new_modules = None,
                pretrained_point = None,
                training = True,
                mask_buffer = causal_mask (len_max pe) \<rparr>)"

text \<open>\<^verbatim>\<open>ParallelTransformerDecoder.renew_buffer\<close>.\<close>

definition renew_buffer ::
  "'p ParallelTransformerDecoder \<Rightarrow> nat \<Rightarrow> error + 'p ParallelTransformerDecoder" where
  "renew_buffer self new_len =
     (case positional_encoder self of
        None \<Rightarrow> Inl AttributeError
      | Some pe \<Rightarrow>
          Inr (self\<lparr>positional_encoder := Some (renew pe new_len),
                    mask_buffer := causal_mask new_len\<rparr>))"

text \<open>
  \<^verbatim>\<open>ParallelTransformerDecoder.add_layers\<close>. The method returns nothing and updates the
  stack in place, so the result is the error raised, if any, and the stack as the call
  leaves it.
\<close>

fun decoder_add_loop ::
  "('t, 'p) runtime \<Rightarrow> nat list \<Rightarrow> 'p ParallelTransformerDecoder \<Rightarrow>
     error option \<times> 'p ParallelTransformerDecoder" where
  "decoder_add_loop T [] self = (None, self)"
| "decoder_add_loop T (i # is) self =
     (let layer = new_DecoderLayer T (n_heads self) (model_size self) (dropout self)
                    (inner_size self) (attn_dropout self)
      in if i = 0
         then (case postprocess_layer self of
                 None \<Rightarrow> (Some AttributeError, self)
               | Some post \<Rightarrow>
                   (let layer = layer\<lparr>preprocess_attn :=
                                        load_state_dict (preprocess_attn layer) (state_dict post)\<rparr>;
                        self = self\<lparr>postprocess_layer :=
                                      Some (new_PrePostProcessing T (model_size self) 0 ''n'' None)\<rparr>
                    in decoder_add_loop T is
                         (self\<lparr>layer_modules := layer_modules self @ [layer]\<rparr>)))
         else decoder_add_loop T is (self\<lparr>layer_modules := layer_modules self @ [layer]\<rparr>))"

definition decoder_add_layers ::
  "('t, 'p) runtime \<Rightarrow> 'p ParallelTransformerDecoder \<Rightarrow> int \<Rightarrow>
     error option \<times> 'p ParallelTransformerDecoder" where
  "decoder_add_layers T self n_new_layer =
     decoder_add_loop T [0 ..< nat n_new_layer]
       (self\<lparr>new_modules := Some [], layers := layers self + n_new_layer\<rparr>)"

subsection \<open>The decoder stack: forward passes\<close>

text \<open>
  \<^verbatim>\<open>input.size(1)\<close> of a token batch, whose rows have one length, and
  \<^verbatim>\<open>self.mask[:len_tgt, :len_tgt]\<close>.
\<close>

definition size1 :: "tokens \<Rightarrow> nat" where
  "size1 input = (case input of [] \<Rightarrow> 0 | row # _ \<Rightarrow> length row)"

definition slice_mask :: "8 word list list \<Rightarrow> nat \<Rightarrow> 8 word list list" where
  "slice_mask m len_tgt = map (take len_tgt) (take len_tgt m)"

text \<open>
  The target mask of the forward passes: the padding mask plus the causal mask, compared
  with zero.
\<close>

definition target_mask ::
  "('t, 'p) runtime \<Rightarrow> Constants \<Rightarrow> 'p ParallelTransformerDecoder \<Rightarrow> tokens \<Rightarrow> 't" where
  "target_mask T C self input =
     (let len_tgt = size1 input;
          mask_tgt = add_mask T (eq_unsqueeze T input (PAD C))
                       (slice_mask (mask_buffer self) len_tgt)
      in gt_zero T mask_tgt)"

text \<open>
  The layer loop of \<^verbatim>\<open>ParallelTransformerDecoder.forward\<close>. \<open>coverage\<close> is unbound until
  a layer has run.
\<close>

fun decoder_loop ::
  "('t, 'p) runtime \<Rightarrow> Constants \<Rightarrow> bool \<Rightarrow> nat \<Rightarrow> nat \<Rightarrow> 'p Layer list \<Rightarrow> 't \<Rightarrow> 't list \<Rightarrow>
     't \<Rightarrow> 't \<Rightarrow> 't \<Rightarrow> 't \<Rightarrow> 't option \<Rightarrow> 't event list \<Rightarrow>
     't event list \<times> (error + 't \<times> 't option)" where
  "decoder_loop T C train n i [] output context mask_tgt mask_src pad_mask_tgt pad_mask_src
     coverage trace = (trace, Inr (output, coverage))"
| "decoder_loop T C train n i (layer # rest) output context mask_tgt mask_src pad_mask_tgt
     pad_mask_src coverage trace =
     (case item context (int i) of
        Inl e \<Rightarrow> (trace, Inl e)
      | Inr context_i \<Rightarrow>
          (let (r, kept) =
                 (if int n - int i \<le> checkpointing C \<and> train
                  then checkpoint (custom_layer (decoder_layer T layer))
                         (output, context_i, mask_tgt, mask_src, pad_mask_tgt, pad_mask_src)
                  else call (decoder_layer T layer)
                         (output, context_i, mask_tgt, mask_src, pad_mask_tgt, pad_mask_src));
               (output', coverage') = r
           in decoder_loop T C train n (Suc i) rest output' context mask_tgt mask_src
                pad_mask_tgt pad_mask_src (Some coverage') (trace @ [Ran i kept])))"

text \<open>
  The last lines of the decoder's passes: the post-processing unit, an attribute that may
  be missing, and the return of a coverage that may be unbound.
\<close>

definition decoder_finish ::
  "('t, 'p) runtime \<Rightarrow> 'p ParallelTransformerDecoder \<Rightarrow> 't \<Rightarrow> 't option \<Rightarrow> error + 't \<times> 't" where
  "decoder_finish T self output coverage =
     (case postprocess_layer self of
        None \<Rightarrow> Inl AttributeError
      | Some post \<Rightarrow>
          (case coverage of
             None \<Rightarrow> Inl UnboundLocalError
           | Some cov \<Rightarrow> Inr (prepost T post output, cov)))"

definition decoder_forward_full ::
  "('t, 'p) runtime \<Rightarrow> Constants \<Rightarrow> 'p ParallelTransformerDecoder \<Rightarrow> tokens \<Rightarrow> 't list \<Rightarrow>
     tokens \<Rightarrow> 't event list \<times> (error + 't \<times> 't)" where
  "decoder_forward_full T C self input context src =
     (case embed T self input of
        Inl e \<Rightarrow> ([], Inl e)
      | Inr emb \<Rightarrow>
          (let mask_src = eq_unsqueeze T src (PAD C);
               mask_tgt = target_mask T C self input;
               pad_mask_tgt = ne T input (PAD C);
               pad_mask_src = one_minus_squeeze T mask_src
           in case decoder_loop T C (training self) (length (layer_modules self)) 0
                     (layer_modules self) emb context mask_tgt mask_src pad_mask_tgt
                     pad_mask_src None [] of
                (trace, Inl e) \<Rightarrow> (trace, Inl e)
              | (trace, Inr (output, coverage)) \<Rightarrow>
                  (trace, decoder_finish T self output coverage)))"

text \<open>\<^verbatim>\<open>ParallelTransformerDecoder.forward_grow\<close> and its two loops.\<close>

fun decoder_pretrained_loop ::
  "('t, 'p) runtime \<Rightarrow> 'p Layer list \<Rightarrow> nat list \<Rightarrow> 't \<Rightarrow> 't list \<Rightarrow> 't \<Rightarrow> 't \<Rightarrow> 't \<Rightarrow> 't \<Rightarrow>
     't option \<Rightarrow> 't event list \<Rightarrow> 't event list \<times> (error + 't \<times> 't option)" where
  "decoder_pretrained_loop T modules [] output context mask_tgt mask_src pad_mask_tgt
     pad_mask_src coverage trace = (trace, Inr (output, coverage))"
| "decoder_pretrained_loop T modules (i # is) output context mask_tgt mask_src pad_mask_tgt
     pad_mask_src coverage trace =
     (case item modules (int i) of
        Inl e \<Rightarrow> (trace, Inl e)
      | Inr layer \<Rightarrow>
          (case item context (int i) of
             Inl e \<Rightarrow> (trace, Inl e)
           | Inr context_i \<Rightarrow>
               (let (output', coverage') =
                      decoder_layer T layer
                        (output, context_i, mask_tgt, mask_src, pad_mask_tgt, pad_mask_src)
                in decoder_pretrained_loop T modules is output' context mask_tgt mask_src
                     pad_mask_tgt pad_mask_src (Some coverage') (trace @ [NoGrad i]))))"

fun decoder_new_loop ::
  "('t, 'p) runtime \<Rightarrow> 'p Layer list \<Rightarrow> int \<Rightarrow> nat list \<Rightarrow> 't \<Rightarrow> 't list \<Rightarrow> 't \<Rightarrow> 't \<Rightarrow> 't \<Rightarrow> 't \<Rightarrow>
     't option \<Rightarrow> 't event list \<Rightarrow> 't event list \<times> (error + 't \<times> 't option)" where
  "decoder_new_loop T modules point [] output context mask_tgt mask_src pad_mask_tgt
     pad_mask_src coverage trace = (trace, Inr (output, coverage))"
| "decoder_new_loop T modules point (i # is) output context mask_tgt mask_src pad_mask_tgt
     pad_mask_src coverage trace =
     (case item modules (point + int i) of
        Inl e \<Rightarrow> (trace, Inl e)
      | Inr layer \<Rightarrow>
          (case item context (point + int i) of
             Inl e \<Rightarrow> (trace, Inl e)
           | Inr context_i \<Rightarrow>
               (let (output', coverage') =
                      decoder_layer T layer
                        (output, context_i, mask_tgt, mask_src, pad_mask_tgt, pad_mask_src)
                in decoder_new_loop T modules point is output' context mask_tgt mask_src
                     pad_mask_tgt pad_mask_src (Some coverage')
                     (trace @ [New (point + int i)]))))"

definition decoder_forward_grow ::
  "('t, 'p) runtime \<Rightarrow> Constants \<Rightarrow> 'p ParallelTransformerDecoder \<Rightarrow> tokens \<Rightarrow> 't list \<Rightarrow>
     tokens \<Rightarrow> 't event list \<times> (error + 't \<times> 't)" where
  "decoder_forward_grow T C self input context src =
     (case embed T self input of
        Inl e \<Rightarrow> ([], Inl e)
      | Inr emb \<Rightarrow>
          (let mask_src = eq_unsqueeze T src (PAD C);
               mask_tgt = target_mask T C self input;
               pad_mask_tgt = ne T input (PAD C);
               pad_mask_src = one_minus_squeeze T mask_src
           in case pretrained_point self of
                None \<Rightarrow> ([], Inl AttributeError)
              | Some point \<Rightarrow>
                  (case decoder_pretrained_loop T (layer_modules self) [0 ..< nat point] emb
                          context mask_tgt mask_src pad_mask_tgt pad_mask_src None [] of
                     (trace, Inl e) \<Rightarrow> (trace, Inl e)
                   | (trace, Inr (output, coverage)) \<Rightarrow>
                       (case decoder_new_loop T (layer_modules self) point
                               [0 ..< nat (layers self - point)] output context mask_tgt
                               mask_src pad_mask_tgt pad_mask_src coverage trace of
                          (trace, Inl e) \<Rightarrow> (trace, Inl e)
                        | (trace, Inr (output, coverage)) \<Rightarrow>
                            (trace, decoder_finish T self output coverage)))))"

definition decoder_forward ::
  "('t, 'p) runtime \<Rightarrow> Constants \<Rightarrow> 'p ParallelTransformerDecoder \<Rightarrow> tokens \<Rightarrow> 't list \<Rightarrow>
     tokens \<Rightarrow> bool \<Rightarrow> 't event list \<times> (error + 't \<times> 't)" where
  "decoder_forward T C self input context src grow =
     (if grow then decoder_forward_grow T C self input context src
      else decoder_forward_full T C self input context src)"

subsection \<open>The decoder stack: incremental step\<close>

text \<open>\<^verbatim>\<open>input[:,-1].unsqueeze(1)\<close>: the last position of every row; a batch of length 0 has none.\<close>

definition last_position :: "tokens \<Rightarrow> error + tokens" where
  "last_position input =
     (if size1 input = 0 then Inl IndexError else Inr (map (\<lambda>row. [last row]) input))"

text \<open>\<^verbatim>\<open>prev_h = buffer[0] if buffer is None else None\<close>.\<close>

definition previous_hidden :: "'t list option \<Rightarrow> error + 't option" where
  "previous_hidden buffer = (if buffer = None then Inl TypeError else Inr None)"

text \<open>\<^verbatim>\<open>emb[1]\<close> and \<^verbatim>\<open>buffer[0] = ...\<close>, on a buffer that is not \<^verbatim>\<open>None\<close>.\<close>

fun second :: "('t, 'p) runtime \<Rightarrow> 't time_out \<Rightarrow> 't" where
  "second T (Tuple out h) = h"
| "second T (Tensor emb) = index_one T emb"

definition set_first :: "'t list \<Rightarrow> 't \<Rightarrow> error + 't list" where
  "set_first buf h = (if buf = [] then Inl IndexError else Inr (buf[0 := h]))"

text \<open>
  The time encoding of a step. The result is the trace, the caller's buffer as the call
  leaves it, and the encoded embedding or the error raised. A recurrent module does not
  take the keyword \<^verbatim>\<open>t\<close>.
\<close>

definition step_time ::
  "('t, 'p) runtime \<Rightarrow> 'p ParallelTransformerDecoder \<Rightarrow> tokens \<Rightarrow> 't \<Rightarrow> 't list option \<Rightarrow>
     't event list \<times> 't list option \<times> (error + 't time_out)" where
  "step_time T self input emb buffer =
     (if time self = ''positional_encoding''
      then (case time_transformer self of
              None \<Rightarrow> ([], buffer, Inl AttributeError)
            | Some SamePositionalEncoder \<Rightarrow>
                (case positional_encoder self of
                   None \<Rightarrow> ([], buffer, Inl TypeError)
                 | Some pe \<Rightarrow>
                     ([], buffer, Inr (Tensor (positional_encoding T pe emb (Some (size1 input))))))
            | Some (GRU w) \<Rightarrow> ([], buffer, Inl TypeError)
            | Some (LSTM w) \<Rightarrow> ([], buffer, Inl TypeError))
      else (case previous_hidden buffer of
              Inl e \<Rightarrow> ([], buffer, Inl e)
            | Inr prev_h \<Rightarrow>
                (case (case time_transformer self of
                         None \<Rightarrow> ([], Inl AttributeError)
                       | Some SamePositionalEncoder \<Rightarrow>
                           (case positional_encoder self of
                              None \<Rightarrow> ([], Inl TypeError)
                            | Some pe \<Rightarrow> ([], Inr (Tensor (positional_encoding T pe emb None))))
                       | Some (GRU w) \<Rightarrow>
                           (case recurrent T w emb prev_h of
                              (out, h) \<Rightarrow> ([Recurrent prev_h], Inr (Tuple out h)))
                       | Some (LSTM w) \<Rightarrow>
                           (case recurrent T w emb prev_h of
                              (out, h) \<Rightarrow> ([Recurrent prev_h], Inr (Tuple out h)))) of
                   (trace, Inl e) \<Rightarrow> (trace, buffer, Inl e)
                 | (trace, Inr emb) \<Rightarrow>
                     (case set_first (the buffer) (second T emb) of
                        Inl e \<Rightarrow> (trace, buffer, Inl e)
                      | Inr buf \<Rightarrow> (trace, Some buf, Inr emb)))))"

text \<open>\<^verbatim>\<open>buffer_ = buffer[i] if buffer is not None else None\<close>.\<close>

definition layer_buffer :: "'t list option \<Rightarrow> nat \<Rightarrow> error + 't option" where
  "layer_buffer buffer i =
     (case buffer of
        None \<Rightarrow> Inr None
      | Some buf \<Rightarrow> (case item buf (int i) of Inl e \<Rightarrow> Inl e | Inr b \<Rightarrow> Inr (Some b)))"

text \<open>The layer loop of \<^verbatim>\<open>step\<close>, with the assertion before every \<^verbatim>\<open>layer.step\<close>.\<close>

fun step_loop ::
  "('t, 'p) runtime \<Rightarrow> nat \<Rightarrow> 'p Layer list \<Rightarrow> 't \<Rightarrow> 't list \<Rightarrow> 't \<Rightarrow> 't \<Rightarrow> 't list option \<Rightarrow>
     't option \<Rightarrow> 't list \<Rightarrow> 't event list \<Rightarrow>
     't event list \<times> (error + 't \<times> 't option \<times> 't list)" where
  "step_loop T i [] output context mask_tgt mask_src buffer coverage output_buffer trace =
     (trace, Inr (output, coverage, output_buffer))"
| "step_loop T i (layer # rest) output context mask_tgt mask_src buffer coverage output_buffer
     trace =
     (case layer_buffer buffer i of
        Inl e \<Rightarrow> (trace, Inl e)
      | Inr buffer' \<Rightarrow>
          if size_one T output \<noteq> 1 then (trace, Inl AssertionError)
          else (case item context (int i) of
                  Inl e \<Rightarrow> (trace, Inl e)
                | Inr context_i \<Rightarrow>
                    (case decoder_layer_step T layer output context_i mask_tgt mask_src buffer' of
                       (output', coverage', buffer'') \<Rightarrow>
                         step_loop T (Suc i) rest output' context mask_tgt mask_src buffer
                           (Some coverage') (output_buffer @ [buffer''])
                           (trace @ [LayerStep i output]))))"

text \<open>
  \<^verbatim>\<open>ParallelTransformerDecoder.step\<close>. The result is the trace, the caller's buffer as the
  call leaves it, and the returned triple (output, coverage, stacked new buffer) or the
  error raised.
\<close>

definition decoder_step ::
  "('t, 'p) runtime \<Rightarrow> Constants \<Rightarrow> 'p ParallelTransformerDecoder \<Rightarrow> tokens \<Rightarrow> 't list \<Rightarrow>
     tokens \<Rightarrow> 't list option \<Rightarrow>
     't event list \<times> 't list option \<times> (error + 't \<times> 't \<times> 't list)" where
  "decoder_step T C self input context src buffer =
     (case last_position input of
        Inl e \<Rightarrow> ([], buffer, Inl e)
      | Inr input' \<Rightarrow>
          (let emb = embedding T (word_lut self) input';
               emb = (if time self = ''positional_encoding''
                      then mul_sqrt T emb (model_size self) else emb)
           in case step_time T self input emb buffer of
                (trace, buffer, Inl e) \<Rightarrow> (trace, buffer, Inl e)
              | (trace, buffer, Inr emb) \<Rightarrow>
                  (let emb = prepost T (preprocess_layer self) (untuple emb);
                       mask_src = eq_unsqueeze T src (PAD C);
                       mask_tgt = last_row T (target_mask T C self input)
                   in case step_loop T 0 (layer_modules self) emb context mask_tgt mask_src
                             buffer None [] trace of
                        (trace, Inl e) \<Rightarrow> (trace, buffer, Inl e)
                      | (trace, Inr (output, coverage, output_buffer)) \<Rightarrow>
                          (case stack output_buffer of
                             Inl e \<Rightarrow> (trace, buffer, Inl e)
                           | Inr new_buffer \<Rightarrow>
                               (case decoder_finish T self output coverage of
                                  Inl e \<Rightarrow> (trace, buffer, Inl e)
                                | Inr (output, coverage) \<Rightarrow>
                                    (trace, buffer, Inr (output, coverage, new_buffer)))))))"

subsection \<open>Reading results\<close>

text \<open>The number of entries of the memory bank that an encoder pass returns.\<close>

definition bank_entries :: "'t event list \<times> (error + 't list \<times> 't) \<Rightarrow> error + nat" where
  "bank_entries r = (case snd r of Inl e \<Rightarrow> Inl e | Inr (memory_bank, mask_src) \<Rightarrow> Inr (length memory_bank))"

text \<open>
  The context that enters layer \<open>i\<close> of an encoder pass over the layers \<open>ls\<close>, and the
  normalized pre-attention input that layer \<open>i\<close> returns beside its output.
\<close>

fun layer_input :: "('t, 'p) runtime \<Rightarrow> 'p Layer list \<Rightarrow> 't \<Rightarrow> 't \<Rightarrow> 't \<Rightarrow> nat \<Rightarrow> 't" where
  "layer_input T ls emb mask_src pad_mask 0 = emb"
| "layer_input T ls emb mask_src pad_mask (Suc i) =
     fst (encoder_layer T (ls ! i) (layer_input T ls emb mask_src pad_mask i, mask_src, pad_mask))"

definition norm_input_of :: "('t, 'p) runtime \<Rightarrow> 'p Layer list \<Rightarrow> 't \<Rightarrow> 't \<Rightarrow> 't \<Rightarrow> nat \<Rightarrow> 't" where
  "norm_input_of T ls emb mask_src pad_mask i =
     snd (encoder_layer T (ls ! i) (layer_input T ls emb mask_src pad_mask i, mask_src, pad_mask))"

text \<open>
  The memory bank as the specification composes it: the normalized pre-attention input of
  every layer except layer 0, in layer order, followed by the post-processed final output.
\<close>

definition composed_bank ::
  "('t, 'p) runtime \<Rightarrow> Constants \<Rightarrow> 'p ParallelTransformerEncoder \<Rightarrow> tokens \<Rightarrow> 't \<Rightarrow> 't list" where
  "composed_bank T C self input emb =
     (let mask_src = eq_unsqueeze T input (PAD C);
          pad_mask = ne T input (PAD C);
          ls = layer_modules self
      in map (norm_input_of T ls emb mask_src pad_mask) [1 ..< length ls]
         @ [prepost T (postprocess_layer self)
              (layer_input T ls emb mask_src pad_mask (length ls))])"

text \<open>
  The entry that the policy of the specification gives layer \<open>i\<close> of \<open>n\<close>: the activations
  are recomputed for the last \<open>k\<close> layers while training, \<open>k\<close> the checkpoint depth, and
  retained otherwise.
\<close>

definition layer_path :: "Constants \<Rightarrow> bool \<Rightarrow> nat \<Rightarrow> nat \<Rightarrow> 't event" where
  "layer_path C train n i =
     Ran i (if int n - int i \<le> checkpointing C \<and> train then Recomputed else Retained)"

text \<open>
  The output and the coverage of a decoder pass after its first \<open>i\<close> layers, each layer
  reading the memory bank entry of its own index.
\<close>

fun decoder_state ::
  "('t, 'p) runtime \<Rightarrow> 'p Layer list \<Rightarrow> 't list \<Rightarrow> 't \<Rightarrow> 't \<Rightarrow> 't \<Rightarrow> 't \<Rightarrow> 't \<Rightarrow> nat \<Rightarrow>
     't \<times> 't option" where
  "decoder_state T ls bank emb mask_tgt mask_src pad_tgt pad_src 0 = (emb, None)"
| "decoder_state T ls bank emb mask_tgt mask_src pad_tgt pad_src (Suc i) =
     (case decoder_layer T (ls ! i)
             (fst (decoder_state T ls bank emb mask_tgt mask_src pad_tgt pad_src i), bank ! i,
              mask_tgt, mask_src, pad_tgt, pad_src) of
        (output, coverage) \<Rightarrow> (output, Some coverage))"

text \<open>
  The embedding that a step computes of the last id of every input row, one position per
  row, before the time encoding.
\<close>

definition step_embedding ::
  "('t, 'p) runtime \<Rightarrow> ('p, 'q, 'z) Stack_scheme \<Rightarrow> tokens \<Rightarrow> 't" where
  "step_embedding T self input =
     (if time self = ''positional_encoding''
      then mul_sqrt T (embedding T (word_lut self) (map (\<lambda>row. [last row]) input))
             (model_size self)
      else embedding T (word_lut self) (map (\<lambda>row. [last row]) input))"

subsection \<open>A runtime of shapes, and the scenario of the specification\<close>

text \<open>
  An interpretation of the runtime on which the operations can be evaluated: a tensor is
  its shape, a state dictionary the shape of its weights. Layers keep the shape of their
  input; coverage is (batch, target length, source length).
\<close>

definition shapes :: "(nat list, nat list) runtime" where
  "shapes =
     \<lparr> new_Embedding = (\<lambda>n d pad. [n, d]),
       new_GRU = (\<lambda>i h l. [3 * h, i + h]),
       new_LSTM = (\<lambda>i h l. [4 * h, i + h]),
       new_PrePostProcessing = (\<lambda>d p seq static.
          \<lparr> pp_d_model = d, pp_dropout_p = p, pp_sequence = seq,
            state_dict = (if CHR ''n'' \<in> set seq then [2, d] else []) \<rparr>),
       new_ParallelEncoderLayer = (\<lambda>h d p inner ap.
          \<lparr> preprocess_attn =
              \<lparr> pp_d_model = d, pp_dropout_p = p, pp_sequence = ''n'', state_dict = [2, d] \<rparr>,
            parameters = [h, d, inner] \<rparr>),
       new_DecoderLayer = (\<lambda>h d p inner ap.
          \<lparr> preprocess_attn =
              \<lparr> pp_d_model = d, pp_dropout_p = p, pp_sequence = ''n'', state_dict = [2, d] \<rparr>,
            parameters = [h, d, inner] \<rparr>),
       embedded_dropout = (\<lambda>w input p. [length input, size1 input, w ! 1]),
       embedding = (\<lambda>w input. [length input, size1 input, w ! 1]),
       mul_sqrt = (\<lambda>emb d. emb),
       positional_encoding = (\<lambda>pe emb t. emb),
       recurrent = (\<lambda>w emb h. (emb, [1, emb ! 0, emb ! 2])),
       prepost = (\<lambda>m x. x),
       eq_unsqueeze = (\<lambda>input pad. [length input, 1, size1 input]),
       ne = (\<lambda>input pad. [length input, size1 input]),
       add_mask = (\<lambda>m causal. [m ! 0, length causal, m ! 2]),
       gt_zero = (\<lambda>m. m),
       one_minus_squeeze = (\<lambda>m. [m ! 0, m ! 2]),
       last_row = (\<lambda>m. [m ! 0, 1, m ! 2]),
       index_one = (\<lambda>x. tl x),
       size_one = (\<lambda>x. x ! 1),
       encoder_layer = (\<lambda>layer (context, mask_src, pad_mask). (context, context)),
       decoder_layer = (\<lambda>layer (output, context, mask_tgt, mask_src, pad_tgt, pad_src).
          (output, [output ! 0, output ! 1, context ! 1])),
       decoder_layer_step = (\<lambda>layer output context mask_tgt mask_src buffer.
          (output, [output ! 0, 1, context ! 1],
           (case buffer of None \<Rightarrow> output | Some b \<Rightarrow> [b ! 0, b ! 1 + 1, b ! 2]))) \<rparr>"

text \<open>
  The scenario of the specification: model dimension 8, two heads, \<open>n\<close> layers, positional
  encoding of maximum length 262, \<^verbatim>\<open>PAD = 0\<close>, source ids \<open>[5, 7, 2]\<close>, target ids
  \<open>[3, PAD]\<close>. What the scenario leaves open is fixed here: inner size 16, no dropout, a
  vocabulary of 10 ids, no checkpointing.
\<close>

definition scenario_constants :: Constants where
  "scenario_constants = \<lparr> PAD = 0, checkpointing = 0 \<rparr>"

definition scenario_opt :: "int \<Rightarrow> real \<Rightarrow> Options" where
  "scenario_opt n v =
     \<lparr> opt_model_size = 8, opt_n_heads = 2, opt_inner_size = 16, opt_layers = n,
       opt_dropout = 0, opt_word_dropout = 0, opt_attn_dropout = 0, opt_emb_dropout = 0,
       opt_time = ''positional_encoding'', opt_version = v \<rparr>"

definition scenario_positional :: PositionalEncoding where
  "scenario_positional = \<lparr> pe_d_model = 8, len_max = 262 \<rparr>"

definition scenario_source :: tokens where
  "scenario_source = [[5, 7, 2]]"

definition scenario_target :: tokens where
  "scenario_target = [[3, 0]]"

text \<open>The stacks of the scenario on the runtime of shapes, with \<open>n\<close> layers.\<close>

definition scenario_encoder :: "int \<Rightarrow> nat list ParallelTransformerEncoder" where
  "scenario_encoder n =
     encoder_init shapes scenario_constants (scenario_opt n 1) 10 (Some scenario_positional)"

definition scenario_decoder :: "int \<Rightarrow> real \<Rightarrow> nat \<Rightarrow> error + nat list ParallelTransformerDecoder" where
  "scenario_decoder n v len =
     decoder_init shapes scenario_constants (scenario_opt n v) 10
       (Some \<lparr> pe_d_model = 8, len_max = len \<rparr>)"

text \<open>The decoder of the scenario with a recurrent time encoder in place of the positional one.\<close>

definition scenario_recurrent_decoder :: "error + nat list ParallelTransformerDecoder" where
  "scenario_recurrent_decoder =
     decoder_init shapes scenario_constants ((scenario_opt 2 1)\<lparr>opt_time := ''gru''\<rparr>) 10
       (Some \<lparr> pe_d_model = 8, len_max = 2 \<rparr>)"

text \<open>
  The runtime of shapes with a pre-processing unit that returns two positions, on which the
  assertion of the step fails.
\<close>

definition wide :: "(nat list, nat list) runtime" where
  "wide = shapes\<lparr>prepost := (\<lambda>m x. [x ! 0, 2, x ! 2])\<rparr>"

section \<open>Properties\<close>

subsection \<open>Auxiliary facts\<close>

lemmas branch_congs =
  sum.case_cong option.case_cong prod.case_cong time_module.case_cong if_cong

lemma item_nat: "item xs (int i) = (if i < length xs then Inr (xs ! i) else Inl IndexError)"
  by (simp add: item_def)

lemma encoder_loop_run:
  "ls = drop i all \<Longrightarrow> i \<le> length all \<Longrightarrow> n = length all \<Longrightarrow>
   ctx = layer_input T all emb m p i \<Longrightarrow>
   encoder_loop T C tr n i ls ctx m p mb trace =
     (layer_input T all emb m p n,
      mb @ map (norm_input_of T all emb m p) [max 1 i ..< n],
      trace @ map (layer_path C tr n) [i ..< n])"
proof (induction ls arbitrary: i ctx mb trace)
  case Nil
  then show ?case by simp
next
  case (Cons layer rest)
  from Cons.prems have i: "i < length all" by (cases "i < length all") auto
  with Cons.prems have layer: "layer = all ! i" and rest: "rest = drop (Suc i) all"
    by (simp_all add: Cons_nth_drop_Suc [symmetric])
  let ?r = "encoder_layer T layer (ctx, m, p)"
  have ctx': "fst ?r = layer_input T all emb m p (Suc i)"
    using Cons.prems layer by simp
  have norm: "snd ?r = norm_input_of T all emb m p i"
    using Cons.prems layer by (simp add: norm_input_of_def)
  have step: "encoder_loop T C tr n i (layer # rest) ctx m p mb trace =
      encoder_loop T C tr n (Suc i) rest (fst ?r) m p
        (if i > 0 then mb @ [snd ?r] else mb) (trace @ [layer_path C tr n i])"
    by (simp add: Let_def checkpoint_def call_def custom_layer_def layer_path_def
        split: prod.splits)
  have "encoder_loop T C tr n (Suc i) rest (fst ?r) m p
        (if i > 0 then mb @ [snd ?r] else mb) (trace @ [layer_path C tr n i]) =
     (layer_input T all emb m p n,
      (if i > 0 then mb @ [snd ?r] else mb)
        @ map (norm_input_of T all emb m p) [max 1 (Suc i) ..< n],
      (trace @ [layer_path C tr n i]) @ map (layer_path C tr n) [Suc i ..< n])"
    using Cons.IH [OF rest _ Cons.prems(3) ctx'] i by simp
  moreover have "(if i > 0 then mb @ [snd ?r] else mb)
        @ map (norm_input_of T all emb m p) [max 1 (Suc i) ..< n]
      = mb @ map (norm_input_of T all emb m p) [max 1 i ..< n]"
    using i Cons.prems(3) norm by (cases "i = 0") (simp_all add: upt_conv_Cons)
  moreover have "(trace @ [layer_path C tr n i]) @ map (layer_path C tr n) [Suc i ..< n]
      = trace @ map (layer_path C tr n) [i ..< n]"
    using i Cons.prems(3) by (simp add: upt_conv_Cons)
  ultimately show ?case using step by simp
qed

lemma encoder_forward_full_run:
  assumes "embed T self input = Inr emb"
  shows "encoder_forward_full T C self input =
     (map (layer_path C (training self) (length (layer_modules self)))
        [0 ..< length (layer_modules self)],
      Inr (composed_bank T C self input emb, eq_unsqueeze T input (PAD C)))"
  using assms
  by (simp add: encoder_forward_full_def composed_bank_def Let_def stack_def
      encoder_loop_run [where all = "layer_modules self" and emb = emb and i = 0, simplified])

lemma encoder_forward_full_fail:
  "embed T self input = Inl e \<Longrightarrow> encoder_forward_full T C self input = ([], Inl e)"
  by (simp add: encoder_forward_full_def)

lemma composed_bank_length:
  "length (composed_bank T C self input emb) =
     (if layer_modules self = [] then 1 else length (layer_modules self))"
  by (cases "layer_modules self") (simp_all add: composed_bank_def Let_def del: upt_Suc)

lemma scenario_embed:
  "embed shapes (scenario_encoder n) scenario_source = Inr [1, 3, 8]"
  by (simp add: embed_def call_time_transformer_def scenario_encoder_def encoder_init_def
      scenario_opt_def time_transformer_init_def shapes_def scenario_source_def size1_def)

subsection \<open>The memory bank of the encoder\<close>

text \<open>
  C1, as amended. Whenever embedding and time encoding succeed, the full-mode forward of
  the encoder returns the memory bank composed, in layer order, of the normalized
  pre-attention input of every layer except layer 0, followed by the post-processed final
  output; the bank has as many entries as the stack has layers when it has at least one,
  and one entry when it has none.
\<close>

theorem encoder_memory_bank:
  assumes "embed T self input = Inr emb"
  shows "snd (encoder_forward T C self input False) =
           Inr (composed_bank T C self input emb, eq_unsqueeze T input (PAD C))
         \<and> bank_entries (encoder_forward T C self input False) =
           Inr (if layer_modules self = [] then 1 else length (layer_modules self))"
  using assms
  by (simp add: encoder_forward_def encoder_forward_full_run bank_entries_def
      composed_bank_length)

theorem encoder_memory_bank_witness:
  "embed shapes (scenario_encoder 2) scenario_source = Inr [1, 3, 8]
   \<and> snd (encoder_forward shapes scenario_constants (scenario_encoder 2) scenario_source False)
      = Inr ([[1, 3, 8], [1, 3, 8]], [1, 1, 3])
   \<and> bank_entries
        (encoder_forward shapes scenario_constants (scenario_encoder 2) scenario_source False)
      = Inr 2"
proof -
  have e: "embed shapes (scenario_encoder 2) scenario_source = Inr [1, 3, 8]"
    by (rule scenario_embed)
  have ls: "layer_modules (scenario_encoder 2) =
      [new_ParallelEncoderLayer shapes 2 8 0 16 0, new_ParallelEncoderLayer shapes 2 8 0 16 0]"
    by (simp add: scenario_encoder_def encoder_init_def scenario_opt_def eval_nat_numeral)
  have b: "composed_bank shapes scenario_constants (scenario_encoder 2) scenario_source [1, 3, 8]
      = [[1, 3, 8], [1, 3, 8]]"
    by (simp add: composed_bank_def ls norm_input_of_def Let_def eval_nat_numeral)
       (simp add: shapes_def)
  have m: "eq_unsqueeze shapes scenario_source (PAD scenario_constants) = [1, 1, 3]"
    by (simp add: shapes_def scenario_source_def size1_def)
  from encoder_memory_bank [OF e, of scenario_constants, unfolded b m] e show ?thesis
    by (simp add: ls)
qed

text \<open>
  The claim as stated fails on a stack without layers: its memory bank has one entry, the
  post-processed embedding, and the stack has no layer.
\<close>

theorem encoder_memory_bank_no_layers:
  "length (layer_modules (scenario_encoder 0)) = 0
   \<and> bank_entries
        (encoder_forward shapes scenario_constants (scenario_encoder 0) scenario_source False)
      = Inr 1
   \<and> bank_entries
        (encoder_forward shapes scenario_constants (scenario_encoder 0) scenario_source False)
      \<noteq> Inr (length (layer_modules (scenario_encoder 0)))"
proof -
  have ls: "layer_modules (scenario_encoder 0) = []"
    by (simp add: scenario_encoder_def encoder_init_def scenario_opt_def)
  have "encoder_forward_full shapes scenario_constants (scenario_encoder 0) scenario_source =
      ([], Inr (composed_bank shapes scenario_constants (scenario_encoder 0) scenario_source
                  [1, 3, 8],
                eq_unsqueeze shapes scenario_source (PAD scenario_constants)))"
    by (simp add: encoder_forward_full_run [OF scenario_embed] ls)
  then show ?thesis
    by (simp add: encoder_forward_def bank_entries_def composed_bank_length ls)
qed

text \<open>
  C8, as amended. In the scenario of a 2-layer encoder with source ids \<open>[5, 7, 2]\<close>, the
  memory bank has exactly 2 entries: the normalized input of layer 1 and the post-processed
  final output. This holds on every runtime, for every version, vocabulary size and
  positional encoder.
\<close>

theorem scenario_bank_two:
  "bank_entries
     (encoder_forward T C (encoder_init T C (scenario_opt 2 v) n (Some pe)) scenario_source False)
   = Inr 2"
  by (simp add: bank_entries_def encoder_forward_def encoder_forward_full_def encoder_init_def
      scenario_opt_def embed_def call_time_transformer_def time_transformer_init_def
      eval_nat_numeral Let_def stack_def split: prod.splits)

text \<open>The claim as stated, three entries, fails on the scenario.\<close>

theorem scenario_bank_not_three:
  "bank_entries
     (encoder_forward shapes scenario_constants (scenario_encoder 2) scenario_source False)
   \<noteq> Inr 3"
proof -
  have ls: "layer_modules (scenario_encoder 2) =
      [new_ParallelEncoderLayer shapes 2 8 0 16 0, new_ParallelEncoderLayer shapes 2 8 0 16 0]"
    by (simp add: scenario_encoder_def encoder_init_def scenario_opt_def eval_nat_numeral)
  show ?thesis
    by (simp add: encoder_forward_def encoder_forward_full_run [OF scenario_embed]
        bank_entries_def composed_bank_length ls)
qed

subsection \<open>The causal mask of the decoder\<close>

lemma causal_mask_length: "length (causal_mask L) = L"
  by (simp add: causal_mask_def astype_uint8_def triu_def ones_def)

lemma causal_mask_row: "i < L \<Longrightarrow> length (causal_mask L ! i) = L"
  by (simp add: causal_mask_def astype_uint8_def triu_def ones_def nth_enumerate_eq)

lemma causal_mask_entry:
  "i < L \<Longrightarrow> j < L \<Longrightarrow> causal_mask L ! i ! j = (if i < j then 1 else 0)"
  by (auto simp add: causal_mask_def astype_uint8_def triu_def ones_def nth_enumerate_eq)

lemma causal_mask_two: "causal_mask 2 = [[0, 1], [0, 0]]"
  by (simp add: causal_mask_def astype_uint8_def triu_def ones_def eval_nat_numeral)

lemma decoder_init_mask:
  "decoder_init T C opt n (Some pe) = Inr self \<Longrightarrow> mask_buffer self = causal_mask (len_max pe)"
  by (auto simp add: decoder_init_def)

lemma renew_buffer_mask:
  "renew_buffer self0 L = Inr self \<Longrightarrow> mask_buffer self = causal_mask L"
  by (auto simp add: renew_buffer_def split: option.splits)

text \<open>
  C5. For every maximum length \<open>L\<close>, be it the \<^verbatim>\<open>len_max\<close> of the positional encoder at
  construction or the length passed to a later \<^verbatim>\<open>renew_buffer\<close>, the decoder's mask is
  an \<open>L \<times> L\<close> matrix whose entry \<open>(i, j)\<close> is 1 (suppressing) if and only if \<open>j > i\<close> and 0
  otherwise; it is a function of \<open>L\<close> alone, and for length 2 it is \<open>[[0, 1], [0, 0]]\<close>.
\<close>

theorem decoder_causal_mask:
  assumes "decoder_init T C opt n (Some pe) = Inr self \<and> L = len_max pe
           \<or> renew_buffer self0 L = Inr self"
  shows "mask_buffer self = causal_mask L
         \<and> length (mask_buffer self) = L
         \<and> (\<forall>i<L. length (mask_buffer self ! i) = L)
         \<and> (\<forall>i<L. \<forall>j<L. (mask_buffer self ! i ! j = 1 \<longleftrightarrow> i < j)
                         \<and> (mask_buffer self ! i ! j = 0 \<longleftrightarrow> \<not> i < j))
         \<and> (L = 2 \<longrightarrow> mask_buffer self = [[0, 1], [0, 0]])"
proof -
  from assms have m: "mask_buffer self = causal_mask L"
    by (auto simp add: decoder_init_mask renew_buffer_mask)
  show ?thesis
    unfolding m
    by (auto simp add: causal_mask_length causal_mask_row causal_mask_entry causal_mask_two)
qed

theorem decoder_causal_mask_witness:
  "mask_buffer (projr (scenario_decoder 2 1 2)) = [[0, 1], [0, 0]]
   \<and> mask_buffer (projr (renew_buffer (projr (scenario_decoder 2 1 2)) 3)) ! 1 ! 2 = 1
   \<and> mask_buffer (projr (renew_buffer (projr (scenario_decoder 2 1 2)) 3)) ! 1 ! 1 = 0"
proof -
  let ?d = "projr (scenario_decoder 2 1 2)"
  let ?d' = "projr (renew_buffer ?d 3)"
  have a: "decoder_init shapes scenario_constants (scenario_opt 2 1) 10
             (Some \<lparr> pe_d_model = 8, len_max = 2 \<rparr>) = Inr ?d
           \<and> (2::nat) = len_max \<lparr> pe_d_model = 8, len_max = 2 \<rparr>"
    by (simp add: scenario_decoder_def decoder_init_def)
  have b: "renew_buffer ?d 3 = Inr ?d'"
    by (simp add: renew_buffer_def scenario_decoder_def decoder_init_def)
  have m2: "mask_buffer ?d = [[0, 1], [0, 0]]"
    using decoder_causal_mask [OF disjI1, OF a] by (simp add: causal_mask_two)
  have m3: "\<forall>i<3. \<forall>j<3. (mask_buffer ?d' ! i ! j = 1 \<longleftrightarrow> i < j)
                        \<and> (mask_buffer ?d' ! i ! j = 0 \<longleftrightarrow> \<not> i < j)"
    using decoder_causal_mask [OF disjI2, OF b] by blast
  from m3 [rule_format, of 1 2] m3 [rule_format, of 1 1] m2 show ?thesis
    by simp
qed

subsection \<open>Growth by no layers\<close>

lemma embed_new_modules:
  "embed T (self\<lparr>new_modules := x\<rparr>) input = embed T self input"
  by (simp add: embed_def call_time_transformer_def Let_def cong: branch_congs)

lemma encoder_add_layers_zero: "encoder_add_layers T self 0 = self\<lparr>new_modules := Some []\<rparr>"
  by (simp add: encoder_add_layers_def)

lemma decoder_add_layers_zero:
  "decoder_add_layers T self 0 = (None, self\<lparr>new_modules := Some []\<rparr>)"
  by (simp add: decoder_add_layers_def)

lemma encoder_forward_new_modules:
  "encoder_forward T C (self\<lparr>new_modules := x\<rparr>) input grow = encoder_forward T C self input grow"
  by (simp add: encoder_forward_def encoder_forward_full_def encoder_forward_grow_def Let_def
      embed_new_modules cong: branch_congs)

lemma decoder_forward_new_modules:
  "decoder_forward T C (self\<lparr>new_modules := x\<rparr>) input context src grow =
   decoder_forward T C self input context src grow"
  by (simp add: decoder_forward_def decoder_forward_full_def decoder_forward_grow_def
      target_mask_def decoder_finish_def Let_def embed_new_modules cong: branch_congs)

lemma step_time_new_modules:
  "step_time T (self\<lparr>new_modules := x\<rparr>) input emb buffer = step_time T self input emb buffer"
  by (simp add: step_time_def cong: branch_congs)

lemma decoder_step_new_modules:
  "decoder_step T C (self\<lparr>new_modules := x\<rparr>) input context src buffer =
   decoder_step T C self input context src buffer"
  by (simp add: decoder_step_def step_time_new_modules target_mask_def decoder_finish_def Let_def
      cong: branch_congs)

text \<open>
  C7. \<^verbatim>\<open>add_layers(0)\<close> raises nothing and leaves every output as it was: for every
  later input, the forward pass of the encoder (full or grow), the forward pass of the
  decoder (full or grow) and the decoder's step return what they would have returned
  without the call, trace and caller's buffer included.
\<close>

theorem add_layers_zero_identity:
  "encoder_forward T C (encoder_add_layers T enc 0) input grow = encoder_forward T C enc input grow
   \<and> fst (decoder_add_layers T dec 0) = None
   \<and> decoder_forward T C (snd (decoder_add_layers T dec 0)) input context src grow
       = decoder_forward T C dec input context src grow
   \<and> decoder_step T C (snd (decoder_add_layers T dec 0)) input context src buffer
       = decoder_step T C dec input context src buffer"
  by (simp add: encoder_add_layers_zero decoder_add_layers_zero encoder_forward_new_modules
      decoder_forward_new_modules decoder_step_new_modules)

subsection \<open>The layer loop of the decoder\<close>

lemma decoder_loop_Cons:
  "decoder_loop T C tr n i (layer # rest) out ctx mt ms pt ps cov trace =
     (if i < length ctx
      then decoder_loop T C tr n (Suc i) rest
             (fst (decoder_layer T layer (out, ctx ! i, mt, ms, pt, ps))) ctx mt ms pt ps
             (Some (snd (decoder_layer T layer (out, ctx ! i, mt, ms, pt, ps))))
             (trace @ [layer_path C tr n i])
      else (trace, Inl IndexError))"
  by (simp add: item_nat Let_def checkpoint_def call_def custom_layer_def layer_path_def
      split: prod.splits)

lemma decoder_loop_trace:
  "fst (decoder_loop T C tr n i ls out ctx mt ms pt ps cov trace) =
     trace @ map (layer_path C tr n) [i ..< min (i + length ls) (length ctx)]"
proof (induction ls arbitrary: i out cov trace)
  case Nil
  then show ?case by simp
next
  case (Cons layer rest)
  show ?case
  proof (cases "i < length ctx")
    case True
    then show ?thesis
      by (simp add: decoder_loop_Cons Cons.IH upt_conv_Cons del: decoder_loop.simps)
  next
    case False
    then show ?thesis
      by (simp add: decoder_loop_Cons del: decoder_loop.simps)
  qed
qed

lemma decoder_loop_short:
  "length ctx < i + length ls \<Longrightarrow> i \<le> length ctx \<Longrightarrow>
   snd (decoder_loop T C tr n i ls out ctx mt ms pt ps cov trace) = Inl IndexError"
proof (induction ls arbitrary: i out cov trace)
  case Nil
  then show ?case by simp
next
  case (Cons layer rest)
  show ?case
  proof (cases "i < length ctx")
    case True
    with Cons.prems have "length ctx < Suc i + length rest" "Suc i \<le> length ctx" by simp_all
    from Cons.IH [OF this] True show ?thesis
      by (simp add: decoder_loop_Cons del: decoder_loop.simps)
  next
    case False
    then show ?thesis
      by (simp add: decoder_loop_Cons del: decoder_loop.simps)
  qed
qed

lemma decoder_loop_long:
  "i + length ls \<le> length ctx \<Longrightarrow> ls \<noteq> [] \<or> cov \<noteq> None \<Longrightarrow>
   \<exists>out' c. snd (decoder_loop T C tr n i ls out ctx mt ms pt ps cov trace) = Inr (out', Some c)"
proof (induction ls arbitrary: i out cov trace)
  case Nil
  then show ?case by auto
next
  case (Cons layer rest)
  then have i: "i < length ctx" and le: "Suc i + length rest \<le> length ctx" by simp_all
  let ?r = "decoder_layer T layer (out, ctx ! i, mt, ms, pt, ps)"
  have "rest \<noteq> [] \<or> Some (snd ?r) \<noteq> None" by simp
  from Cons.IH [OF le this] i show ?case
    by (simp add: decoder_loop_Cons del: decoder_loop.simps)
qed

lemma decoder_loop_take:
  "i + length ls \<le> k \<Longrightarrow>
   decoder_loop T C tr n i ls out (take k ctx) mt ms pt ps cov trace =
   decoder_loop T C tr n i ls out ctx mt ms pt ps cov trace"
proof (induction ls arbitrary: i out cov trace)
  case Nil
  then show ?case by simp
next
  case (Cons layer rest)
  then have i: "i < k" and "Suc i + length rest \<le> k" by simp_all
  from Cons.IH [OF this(2)] i show ?case
    by (simp add: decoder_loop_Cons del: decoder_loop.simps)
qed

lemma decoder_forward_full_eq:
  assumes "embed T self input = Inr emb"
  shows "decoder_forward_full T C self input context src =
     (fst (decoder_loop T C (training self) (length (layer_modules self)) 0
             (layer_modules self) emb context (target_mask T C self input)
             (eq_unsqueeze T src (PAD C)) (ne T input (PAD C))
             (one_minus_squeeze T (eq_unsqueeze T src (PAD C))) None []),
      case snd (decoder_loop T C (training self) (length (layer_modules self)) 0
             (layer_modules self) emb context (target_mask T C self input)
             (eq_unsqueeze T src (PAD C)) (ne T input (PAD C))
             (one_minus_squeeze T (eq_unsqueeze T src (PAD C))) None []) of
        Inl e \<Rightarrow> Inl e
      | Inr (output, coverage) \<Rightarrow> decoder_finish T self output coverage)"
  using assms by (simp add: decoder_forward_full_def Let_def split: prod.splits sum.splits)

lemma decoder_forward_full_trace:
  "fst (decoder_forward_full T C self input context src) =
     (case embed T self input of
        Inl e \<Rightarrow> []
      | Inr emb \<Rightarrow>
          map (layer_path C (training self) (length (layer_modules self)))
            [0 ..< min (length (layer_modules self)) (length context)])"
proof (cases "embed T self input")
  case (Inl e)
  then show ?thesis by (simp add: decoder_forward_full_def)
next
  case (Inr emb)
  then show ?thesis
    by (simp add: decoder_forward_full_eq [OF Inr] decoder_loop_trace)
qed

lemma decoder_forward_full_short:
  assumes "embed T self input = Inr emb" and "length context < length (layer_modules self)"
  shows "snd (decoder_forward_full T C self input context src) = Inl IndexError"
  using assms(2) by (simp add: decoder_forward_full_eq [OF assms(1)] decoder_loop_short)

lemma decoder_forward_full_long:
  assumes "embed T self input = Inr emb" and "length (layer_modules self) \<le> length context"
    and "layer_modules self \<noteq> []" and "postprocess_layer self = Some post"
  shows "\<exists>out cov. snd (decoder_forward_full T C self input context src) = Inr (out, cov)"
proof -
  from assms(2,3) obtain out' c where
    "snd (decoder_loop T C (training self) (length (layer_modules self)) 0
             (layer_modules self) emb context (target_mask T C self input)
             (eq_unsqueeze T src (PAD C)) (ne T input (PAD C))
             (one_minus_squeeze T (eq_unsqueeze T src (PAD C))) None []) = Inr (out', Some c)"
    using decoder_loop_long [where i = 0 and ls = "layer_modules self" and ctx = "context"
        and cov = None]
    by fastforce
  then show ?thesis
    using assms(4) by (simp add: decoder_forward_full_eq [OF assms(1)] decoder_finish_def)
qed

lemma decoder_forward_full_take:
  assumes "length (layer_modules self) \<le> k"
  shows "decoder_forward_full T C self input (take k context) src =
         decoder_forward_full T C self input context src"
proof (cases "embed T self input")
  case (Inl e)
  then show ?thesis by (simp add: decoder_forward_full_def)
next
  case (Inr emb)
  then show ?thesis
    using assms by (simp add: decoder_forward_full_eq [OF Inr] decoder_loop_take)
qed

lemma encoder_forward_full_trace:
  "fst (encoder_forward_full T C self input) =
     (case embed T self input of
        Inl e \<Rightarrow> []
      | Inr emb \<Rightarrow>
          map (layer_path C (training self) (length (layer_modules self)))
            [0 ..< length (layer_modules self)])"
  by (cases "embed T self input")
     (simp_all add: encoder_forward_full_run encoder_forward_full_fail)

subsection \<open>The checkpointing policy\<close>

lemma decoder_loop_run:
  "ls = drop i all \<Longrightarrow> i + length ls \<le> length ctx \<Longrightarrow> i \<le> length all \<Longrightarrow>
   (out, cov) = decoder_state T all ctx emb mt ms pt ps i \<Longrightarrow>
   snd (decoder_loop T C tr n i ls out ctx mt ms pt ps cov trace) =
     Inr (decoder_state T all ctx emb mt ms pt ps (length all))"
proof (induction ls arbitrary: i out cov trace)
  case Nil
  then show ?case by simp
next
  case (Cons layer rest)
  from Cons.prems have i: "i < length all" by (cases "i < length all") auto
  with Cons.prems have layer: "layer = all ! i" and rest: "rest = drop (Suc i) all"
    by (simp_all add: Cons_nth_drop_Suc [symmetric])
  from Cons.prems(2) have c: "i < length ctx" and le: "Suc i + length rest \<le> length ctx"
    by simp_all
  let ?r = "decoder_layer T layer (out, ctx ! i, mt, ms, pt, ps)"
  from Cons.prems(4) have "fst (decoder_state T all ctx emb mt ms pt ps i) = out"
    by (metis fst_conv)
  then have st: "(fst ?r, Some (snd ?r)) = decoder_state T all ctx emb mt ms pt ps (Suc i)"
    using layer by (simp add: case_prod_unfold)
  from Cons.IH [OF rest le _ st] i c show ?case
    by (simp add: decoder_loop_Cons del: decoder_loop.simps)
qed

lemma decoder_forward_full_result:
  assumes "embed T self input = Inr emb"
  shows "snd (decoder_forward_full T C self input bank src) =
     (if length bank < length (layer_modules self) then Inl IndexError
      else decoder_finish T self
             (fst (decoder_state T (layer_modules self) bank emb (target_mask T C self input)
                     (eq_unsqueeze T src (PAD C)) (ne T input (PAD C))
                     (one_minus_squeeze T (eq_unsqueeze T src (PAD C)))
                     (length (layer_modules self))))
             (snd (decoder_state T (layer_modules self) bank emb (target_mask T C self input)
                     (eq_unsqueeze T src (PAD C)) (ne T input (PAD C))
                     (one_minus_squeeze T (eq_unsqueeze T src (PAD C)))
                     (length (layer_modules self)))))"
proof (cases "length bank < length (layer_modules self)")
  case True
  then show ?thesis
    by (simp add: decoder_forward_full_short [OF assms])
next
  case False
  then have "snd (decoder_loop T C (training self) (length (layer_modules self)) 0
             (layer_modules self) emb bank (target_mask T C self input)
             (eq_unsqueeze T src (PAD C)) (ne T input (PAD C))
             (one_minus_squeeze T (eq_unsqueeze T src (PAD C))) None []) =
     Inr (decoder_state T (layer_modules self) bank emb (target_mask T C self input)
            (eq_unsqueeze T src (PAD C)) (ne T input (PAD C))
            (one_minus_squeeze T (eq_unsqueeze T src (PAD C))) (length (layer_modules self)))"
    by (intro decoder_loop_run) simp_all
  with False show ?thesis
    by (simp add: decoder_forward_full_eq [OF assms] case_prod_unfold)
qed

text \<open>
  C6. A full-mode forward runs the layers in order: all \<open>N\<close> layers of the encoder once
  embedding has succeeded, and of the decoder the layers up to the first one whose memory
  bank entry is missing. Layer \<open>i\<close> of the \<open>N\<close> layers of the stack is run by the
  checkpointed call, which reports its activations as recomputed, exactly when
  \<open>N - i \<le> k\<close>, \<open>k\<close> the configured checkpoint depth, and the stack is in training mode;
  every other layer is run by the ordinary call, which retains them. The pass returns what
  the layers so run compute: the encoder the memory bank composed of their normalized
  inputs and the post-processed final output, the decoder the post-processed output and the
  coverage of its last layer.
\<close>

theorem checkpoint_policy:
  "encoder_forward T C enc input False =
     (case embed T enc input of
        Inl e \<Rightarrow> ([], Inl e)
      | Inr emb \<Rightarrow>
          (map (\<lambda>i. Ran i (if int (length (layer_modules enc)) - int i \<le> checkpointing C
                               \<and> training enc
                            then Recomputed else Retained))
             [0 ..< length (layer_modules enc)],
           Inr (composed_bank T C enc input emb, eq_unsqueeze T input (PAD C))))
   \<and> decoder_forward T C dec input' bank src False =
     (case embed T dec input' of
        Inl e \<Rightarrow> ([], Inl e)
      | Inr emb \<Rightarrow>
          (map (\<lambda>i. Ran i (if int (length (layer_modules dec)) - int i \<le> checkpointing C
                               \<and> training dec
                            then Recomputed else Retained))
             [0 ..< min (length (layer_modules dec)) (length bank)],
           if length bank < length (layer_modules dec) then Inl IndexError
           else decoder_finish T dec
                  (fst (decoder_state T (layer_modules dec) bank emb (target_mask T C dec input')
                          (eq_unsqueeze T src (PAD C)) (ne T input' (PAD C))
                          (one_minus_squeeze T (eq_unsqueeze T src (PAD C)))
                          (length (layer_modules dec))))
                  (snd (decoder_state T (layer_modules dec) bank emb (target_mask T C dec input')
                          (eq_unsqueeze T src (PAD C)) (ne T input' (PAD C))
                          (one_minus_squeeze T (eq_unsqueeze T src (PAD C)))
                          (length (layer_modules dec))))))"
proof -
  have enc: "encoder_forward T C enc input False =
     (case embed T enc input of
        Inl e \<Rightarrow> ([], Inl e)
      | Inr emb \<Rightarrow>
          (map (layer_path C (training enc) (length (layer_modules enc)))
             [0 ..< length (layer_modules enc)],
           Inr (composed_bank T C enc input emb, eq_unsqueeze T input (PAD C))))"
    by (cases "embed T enc input")
       (simp_all add: encoder_forward_def encoder_forward_full_run encoder_forward_full_fail)
  have dec: "decoder_forward T C dec input' bank src False =
     (case embed T dec input' of
        Inl e \<Rightarrow> ([], Inl e)
      | Inr emb \<Rightarrow>
          (map (layer_path C (training dec) (length (layer_modules dec)))
             [0 ..< min (length (layer_modules dec)) (length bank)],
           snd (decoder_forward_full T C dec input' bank src)))"
  proof (cases "embed T dec input'")
    case (Inl e)
    then show ?thesis by (simp add: decoder_forward_def decoder_forward_full_def)
  next
    case (Inr emb)
    have "decoder_forward_full T C dec input' bank src =
        (fst (decoder_forward_full T C dec input' bank src),
         snd (decoder_forward_full T C dec input' bank src))"
      by simp
    with Inr show ?thesis
      by (simp add: decoder_forward_def decoder_forward_full_trace del: prod.collapse)
  qed
  show ?thesis
    unfolding enc dec
    by (simp add: layer_path_def [abs_def] decoder_forward_full_result
        cong: sum.case_cong)
qed

theorem checkpoint_policy_witness:
  "fst (encoder_forward shapes \<lparr> PAD = 0, checkpointing = 1 \<rparr> (scenario_encoder 2)
          scenario_source False) = [Ran 0 Retained, Ran 1 Recomputed]
   \<and> decoder_forward shapes \<lparr> PAD = 0, checkpointing = 1 \<rparr>
        (projr (scenario_decoder 2 1 2)) scenario_target [[1, 3, 8], [1, 3, 8]]
        scenario_source False = ([Ran 0 Retained, Ran 1 Recomputed], Inr ([1, 2, 8], [1, 2, 3]))"
proof -
  let ?d = "projr (scenario_decoder 2 1 2)"
  let ?C = "\<lparr> PAD = 0, checkpointing = 1 \<rparr>"
  have e: "embed shapes ?d scenario_target = Inr [1, 2, 8]"
    by code_simp
  have n: "length (layer_modules ?d) = 2" "length (layer_modules (scenario_encoder 2)) = 2"
    by code_simp+
  have t: "training ?d" "training (scenario_encoder 2)"
    by code_simp+
  have f: "decoder_finish shapes ?d
      (fst (decoder_state shapes (layer_modules ?d) [[1, 3, 8], [1, 3, 8]] [1, 2, 8]
              (target_mask shapes ?C ?d scenario_target)
              (eq_unsqueeze shapes scenario_source (PAD ?C)) (ne shapes scenario_target (PAD ?C))
              (one_minus_squeeze shapes (eq_unsqueeze shapes scenario_source (PAD ?C))) 2))
      (snd (decoder_state shapes (layer_modules ?d) [[1, 3, 8], [1, 3, 8]] [1, 2, 8]
              (target_mask shapes ?C ?d scenario_target)
              (eq_unsqueeze shapes scenario_source (PAD ?C)) (ne shapes scenario_target (PAD ?C))
              (one_minus_squeeze shapes (eq_unsqueeze shapes scenario_source (PAD ?C))) 2))
      = Inr ([1, 2, 8], [1, 2, 3])"
    by code_simp
  from checkpoint_policy [of shapes ?C "scenario_encoder 2" scenario_source ?d scenario_target
      "[[1, 3, 8], [1, 3, 8]]" scenario_source]
  show ?thesis
    by (simp add: scenario_embed e n t f [simplified] upt_conv_Cons)
qed

subsection \<open>The memory bank and the layers of the decoder\<close>

text \<open>
  C2, as amended. The encoder's memory bank has as many entries as the encoder has layers
  (when it has at least one), whatever the decoder's layer count is; that is the decoder's
  layer count when both stacks are constructed from the same options. Once the decoder's
  embedding has succeeded, its full-mode forward raises an index error when the memory
  bank has fewer entries than the decoder has layers; when the bank has at least as many,
  the forward reads the first entries only, one per layer, and returns exactly what it
  returns on the bank cut to the layer count: it completes if the decoder has a layer and
  a post-processing unit.
\<close>

theorem decoder_bank_alignment:
  assumes "embed T dec input = Inr emb"
  shows "(length bank < length (layer_modules dec) \<longrightarrow>
            snd (decoder_forward T C dec input bank src False) = Inl IndexError)
         \<and> (length (layer_modules dec) \<le> length bank \<longrightarrow>
              decoder_forward T C dec input bank src False =
                decoder_forward T C dec input (take (length (layer_modules dec)) bank) src False
              \<and> (layer_modules dec \<noteq> [] \<and> postprocess_layer dec \<noteq> None \<longrightarrow>
                   (\<exists>out cov. snd (decoder_forward T C dec input bank src False)
                                = Inr (out, cov))))
         \<and> (embed T enc src = Inr emb' \<and> layer_modules enc \<noteq> [] \<longrightarrow>
              bank_entries (encoder_forward T C enc src False)
                = Inr (length (layer_modules enc)))
         \<and> (decoder_init T C opt n' pe' = Inr dec' \<and> enc = encoder_init T C opt n pe
              \<and> 1 \<le> opt_layers opt \<and> embed T enc src = Inr emb' \<longrightarrow>
              bank_entries (encoder_forward T C enc src False)
                = Inr (length (layer_modules dec')))"
proof -
  have short: "length bank < length (layer_modules dec) \<longrightarrow>
      snd (decoder_forward T C dec input bank src False) = Inl IndexError"
    using assms by (simp add: decoder_forward_def decoder_forward_full_short)
  have cut: "decoder_forward T C dec input bank src False =
      decoder_forward T C dec input (take (length (layer_modules dec)) bank) src False"
    by (simp add: decoder_forward_def decoder_forward_full_take)
  have long: "length (layer_modules dec) \<le> length bank \<longrightarrow>
      layer_modules dec \<noteq> [] \<and> postprocess_layer dec \<noteq> None \<longrightarrow>
      (\<exists>out cov. snd (decoder_forward T C dec input bank src False) = Inr (out, cov))"
    using assms decoder_forward_full_long [where T = T and self = dec and input = input]
    by (auto simp add: decoder_forward_def)
  have bank: "embed T enc src = Inr emb' \<and> layer_modules enc \<noteq> [] \<longrightarrow>
      bank_entries (encoder_forward T C enc src False) = Inr (length (layer_modules enc))"
    by (auto simp add: encoder_forward_def encoder_forward_full_run bank_entries_def
        composed_bank_length)
  have same: "decoder_init T C opt n' pe' = Inr dec' \<and> enc = encoder_init T C opt n pe
      \<and> 1 \<le> opt_layers opt \<and> embed T enc src = Inr emb' \<longrightarrow>
      bank_entries (encoder_forward T C enc src False) = Inr (length (layer_modules dec'))"
  proof (intro impI, elim conjE)
    assume d: "decoder_init T C opt n' pe' = Inr dec'" and e: "enc = encoder_init T C opt n pe"
      and l: "1 \<le> opt_layers opt" and b: "embed T enc src = Inr emb'"
    from d have "length (layer_modules dec') = nat (opt_layers opt)"
      by (auto simp add: decoder_init_def split: option.splits)
    moreover from e have "length (layer_modules enc) = nat (opt_layers opt)"
      by (simp add: encoder_init_def)
    moreover from this l have "layer_modules enc \<noteq> []"
      by auto
    ultimately show "bank_entries (encoder_forward T C enc src False)
        = Inr (length (layer_modules dec'))"
      using bank b by simp
  qed
  from short cut long bank same show ?thesis by blast
qed

theorem decoder_bank_alignment_witness:
  "snd (decoder_forward shapes scenario_constants (projr (scenario_decoder 2 1 2))
          scenario_target [[1, 3, 8]] scenario_source False) = Inl IndexError
   \<and> (\<exists>out cov. snd (decoder_forward shapes scenario_constants (projr (scenario_decoder 2 1 2))
          scenario_target [[1, 3, 8], [1, 3, 8], [1, 3, 8]] scenario_source False)
        = Inr (out, cov))
   \<and> bank_entries
        (encoder_forward shapes scenario_constants (scenario_encoder 2) scenario_source False)
      = Inr 2"
proof -
  let ?d = "projr (scenario_decoder 2 1 2)"
  have e: "embed shapes ?d scenario_target = Inr [1, 2, 8]"
    by code_simp
  have n: "length (layer_modules ?d) = 2"
    by code_simp
  have p: "layer_modules ?d \<noteq> [] \<and> postprocess_layer ?d \<noteq> None"
    by code_simp
  have m: "length (layer_modules (scenario_encoder 2)) = 2"
    by code_simp
  have di: "decoder_init shapes scenario_constants (scenario_opt 2 1) 10
      (Some \<lparr> pe_d_model = 8, len_max = 2 \<rparr>) = Inr ?d"
    by (simp add: scenario_decoder_def decoder_init_def)
  have ei: "scenario_encoder 2 =
      encoder_init shapes scenario_constants (scenario_opt 2 1) 10 (Some scenario_positional)"
    by (simp add: scenario_encoder_def)
  have ol: "1 \<le> opt_layers (scenario_opt 2 1)"
    by (simp add: scenario_opt_def)
  note a = decoder_bank_alignment [OF e, where C = scenario_constants and src = scenario_source
      and enc = "scenario_encoder 2" and emb' = "[1, 3, 8]" and opt = "scenario_opt 2 1"
      and n' = 10 and pe' = "Some \<lparr> pe_d_model = 8, len_max = 2 \<rparr>" and dec' = ?d
      and n = 10 and pe = "Some scenario_positional"]
  have lt: "length [[1, 3, 8 :: nat]] < length (layer_modules ?d)"
    using n by simp
  have le: "length (layer_modules ?d) \<le> length [[1, 3, 8 :: nat], [1, 3, 8], [1, 3, 8]]"
    using n by simp
  from a [where bank = "[[1, 3, 8]]"] lt
  have "snd (decoder_forward shapes scenario_constants ?d scenario_target [[1, 3, 8]]
          scenario_source False) = Inl IndexError"
    by blast
  moreover from a [where bank = "[[1, 3, 8], [1, 3, 8], [1, 3, 8]]"] le p
  have "\<exists>out cov. snd (decoder_forward shapes scenario_constants ?d scenario_target
          [[1, 3, 8], [1, 3, 8], [1, 3, 8]] scenario_source False) = Inr (out, cov)"
    by blast
  moreover from a [where bank = "[]"] di ei ol scenario_embed [of 2]
  have "bank_entries
          (encoder_forward shapes scenario_constants (scenario_encoder 2) scenario_source False)
        = Inr (length (layer_modules ?d))"
    by blast
  ultimately show ?thesis
    using n by simp
qed

text \<open>
  The claim as stated fails: the memory bank of a 3-layer encoder has 3 entries, the
  decoder has 2 layers, and the decoder's forward on that bank completes.
\<close>

theorem decoder_accepts_longer_bank:
  "bank_entries
     (encoder_forward shapes scenario_constants (scenario_encoder 3) scenario_source False)
     = Inr 3
   \<and> length (layer_modules (projr (scenario_decoder 2 1 2))) = 2
   \<and> snd (decoder_forward shapes scenario_constants (projr (scenario_decoder 2 1 2))
            scenario_target
            (fst (projr (snd (encoder_forward shapes scenario_constants (scenario_encoder 3)
                                scenario_source False))))
            scenario_source False)
     = Inr ([1, 2, 8], [1, 2, 3])"
  by code_simp

subsection \<open>Grow-mode forward before the pretrained boundary is marked\<close>

lemma encoder_add_loop_point:
  "pretrained_point (encoder_add_loop T is self) = pretrained_point self"
  by (induction "is" arbitrary: self) (simp_all add: Let_def)

lemma decoder_add_loop_point:
  "pretrained_point (snd (decoder_add_loop T is self)) = pretrained_point self"
  by (induction "is" arbitrary: self) (simp_all add: Let_def split: option.splits)

text \<open>
  The attribute \<^verbatim>\<open>pretrained_point\<close> is unset on a stack as constructed, stays as it is
  under \<^verbatim>\<open>add_layers\<close> and \<^verbatim>\<open>renew_buffer\<close>, and is set by \<^verbatim>\<open>mark_pretrained\<close> alone: it is
  unset exactly on the stacks on which \<^verbatim>\<open>mark_pretrained\<close> has never been called.
\<close>

lemma pretrained_point_unset:
  "pretrained_point (encoder_init T C opt n pe) = None"
  "decoder_init T C opt n pe = Inr dec' \<Longrightarrow> pretrained_point dec' = None"
  "pretrained_point (encoder_add_layers T enc k) = pretrained_point enc"
  "pretrained_point (snd (decoder_add_layers T dec k)) = pretrained_point dec"
  "renew_buffer dec len = Inr dec' \<Longrightarrow> pretrained_point dec' = pretrained_point dec"
  "pretrained_point (mark_pretrained self) = Some (layers self)"
  by (auto simp add: encoder_init_def decoder_init_def encoder_add_layers_def
      decoder_add_layers_def encoder_add_loop_point decoder_add_loop_point renew_buffer_def
      mark_pretrained_def split: option.splits)

text \<open>
  C4. On every stack, encoder or decoder, on which \<^verbatim>\<open>mark_pretrained\<close> has never been
  called, a forward with \<^verbatim>\<open>grow=True\<close> raises: the error of the embedding stage if that
  stage fails, and otherwise the attribute error of reading \<^verbatim>\<open>pretrained_point\<close>. No layer
  is run and nothing is returned in its place.
\<close>

theorem grow_before_mark_raises:
  assumes "pretrained_point enc = None" and "pretrained_point dec = None"
  shows "encoder_forward T C enc input True =
           ([], Inl (case embed T enc input of Inl e \<Rightarrow> e | Inr emb \<Rightarrow> AttributeError))
         \<and> decoder_forward T C dec input' bank src True =
           ([], Inl (case embed T dec input' of Inl e \<Rightarrow> e | Inr emb \<Rightarrow> AttributeError))"
  using assms
  by (simp add: encoder_forward_def encoder_forward_grow_def decoder_forward_def
      decoder_forward_grow_def Let_def split: sum.splits)

theorem grow_before_mark_raises_witness:
  "encoder_forward shapes scenario_constants (scenario_encoder 2) scenario_source True =
     ([], Inl AttributeError)
   \<and> decoder_forward shapes scenario_constants (projr (scenario_decoder 2 1 2)) scenario_target
       [[1, 3, 8], [1, 3, 8]] scenario_source True = ([], Inl AttributeError)"
proof -
  have a: "pretrained_point (scenario_encoder 2) = None"
    by (simp add: scenario_encoder_def pretrained_point_unset)
  have b: "pretrained_point (projr (scenario_decoder 2 1 2)) = None"
    by code_simp
  have e: "embed shapes (projr (scenario_decoder 2 1 2)) scenario_target = Inr [1, 2, 8]"
    by code_simp
  from grow_before_mark_raises [OF a b, of shapes scenario_constants scenario_source
      scenario_target "[[1, 3, 8], [1, 3, 8]]" scenario_source]
  show ?thesis
    by (simp add: scenario_embed e)
qed

subsection \<open>Growth\<close>

lemma encoder_add_loop_rest:
  "0 \<notin> set is \<Longrightarrow>
   encoder_add_loop T is self =
     self\<lparr>layer_modules := layer_modules self @
        replicate (length is)
          (new_ParallelEncoderLayer T (n_heads self) (model_size self) (dropout self)
             (inner_size self) (attn_dropout self))\<rparr>"
proof (induction "is" arbitrary: self)
  case Nil
  then show ?case by simp
next
  case (Cons i "is")
  then show ?case
    by (simp add: Let_def replicate_app_Cons_same)
qed

lemma decoder_add_loop_rest:
  "0 \<notin> set is \<Longrightarrow>
   decoder_add_loop T is self =
     (None, self\<lparr>layer_modules := layer_modules self @
        replicate (length is)
          (new_DecoderLayer T (n_heads self) (model_size self) (dropout self)
             (inner_size self) (attn_dropout self))\<rparr>)"
proof (induction "is" arbitrary: self)
  case Nil
  then show ?case by simp
next
  case (Cons i "is")
  then show ?case
    by (simp add: Let_def replicate_app_Cons_same)
qed

lemma upt_from_zero: "0 < n \<Longrightarrow> [0 ..< n] = 0 # [1 ..< n] \<and> 0 \<notin> set [1 ..< n]"
  by (simp add: upt_conv_Cons)

lemma encoder_add_layers_pos:
  assumes "1 \<le> n"
  shows "encoder_add_layers T self n =
     self\<lparr>new_modules := Some [],
          layers := layers self + n,
          postprocess_layer := new_PrePostProcessing T (model_size self) 0 ''n'' None,
          layer_modules := layer_modules self @
            (new_ParallelEncoderLayer T (n_heads self) (model_size self) (dropout self)
               (inner_size self) (attn_dropout self))
              \<lparr>preprocess_attn :=
                 load_state_dict
                   (preprocess_attn
                      (new_ParallelEncoderLayer T (n_heads self) (model_size self) (dropout self)
                         (inner_size self) (attn_dropout self)))
                   (state_dict (postprocess_layer self))\<rparr>
            # replicate (nat n - 1)
                (new_ParallelEncoderLayer T (n_heads self) (model_size self) (dropout self)
                   (inner_size self) (attn_dropout self))\<rparr>"
proof -
  from assms have "0 < nat n" by simp
  from upt_from_zero [OF this] show ?thesis
    by (simp add: encoder_add_layers_def Let_def encoder_add_loop_rest)
qed

lemma decoder_add_layers_pos:
  assumes "1 \<le> n" and "postprocess_layer self = Some post"
  shows "decoder_add_layers T self n =
     (None,
      self\<lparr>new_modules := Some [],
           layers := layers self + n,
           postprocess_layer := Some (new_PrePostProcessing T (model_size self) 0 ''n'' None),
           layer_modules := layer_modules self @
             (new_DecoderLayer T (n_heads self) (model_size self) (dropout self)
                (inner_size self) (attn_dropout self))
               \<lparr>preprocess_attn :=
                  load_state_dict
                    (preprocess_attn
                       (new_DecoderLayer T (n_heads self) (model_size self) (dropout self)
                          (inner_size self) (attn_dropout self)))
                    (state_dict post)\<rparr>
             # replicate (nat n - 1)
                 (new_DecoderLayer T (n_heads self) (model_size self) (dropout self)
                    (inner_size self) (attn_dropout self))\<rparr>)"
proof -
  from assms have "0 < nat n" by simp
  from upt_from_zero [OF this] assms(2) show ?thesis
    by (simp add: decoder_add_layers_def Let_def decoder_add_loop_rest)
qed

text \<open>
  C3, as amended. For every stack that has a post-processing unit, that is every encoder
  and every decoder constructed with version 1.0, and every \<open>n \<ge> 1\<close>, immediately after
  \<^verbatim>\<open>add_layers(n)\<close>: \<open>n\<close> layers have been appended; the parameters of the pre-attention
  pre-processing unit of the first of them are the parameters that the stack's
  post-processing unit had immediately before the call; the stack's post-processing unit is
  a freshly constructed one; and the layers that existed before are unchanged, at their
  positions. On such a decoder the call raises nothing.
\<close>

theorem add_layers_splices:
  assumes "1 \<le> n" and "postprocess_layer dec = Some post"
  shows "length (layer_modules (encoder_add_layers T enc n)) = length (layer_modules enc) + nat n
         \<and> state_dict (preprocess_attn
              (layer_modules (encoder_add_layers T enc n) ! length (layer_modules enc)))
             = state_dict (postprocess_layer enc)
         \<and> postprocess_layer (encoder_add_layers T enc n)
             = new_PrePostProcessing T (model_size enc) 0 ''n'' None
         \<and> take (length (layer_modules enc)) (layer_modules (encoder_add_layers T enc n))
             = layer_modules enc
         \<and> fst (decoder_add_layers T dec n) = None
         \<and> length (layer_modules (snd (decoder_add_layers T dec n)))
             = length (layer_modules dec) + nat n
         \<and> state_dict (preprocess_attn
              (layer_modules (snd (decoder_add_layers T dec n)) ! length (layer_modules dec)))
             = state_dict post
         \<and> postprocess_layer (snd (decoder_add_layers T dec n))
             = Some (new_PrePostProcessing T (model_size dec) 0 ''n'' None)
         \<and> take (length (layer_modules dec)) (layer_modules (snd (decoder_add_layers T dec n)))
             = layer_modules dec"
proof -
  from assms(1) have n: "Suc (nat n - Suc 0) = nat n" by simp
  show ?thesis
    by (simp add: encoder_add_layers_pos [OF assms(1)] decoder_add_layers_pos [OF assms]
        load_state_dict_def n)
qed

theorem add_layers_splices_witness:
  "length (layer_modules (encoder_add_layers shapes (scenario_encoder 2) 2)) = 4
   \<and> state_dict (preprocess_attn
        (layer_modules (encoder_add_layers shapes (scenario_encoder 2) 2) ! 2)) = [2, 8]
   \<and> fst (decoder_add_layers shapes (projr (scenario_decoder 2 1 2)) 2) = None
   \<and> length (layer_modules (snd (decoder_add_layers shapes (projr (scenario_decoder 2 1 2)) 2)))
       = 4"
proof -
  have p: "postprocess_layer (projr (scenario_decoder 2 1 2)) =
      Some \<lparr> pp_d_model = 8, pp_dropout_p = 0, pp_sequence = ''n'', state_dict = [2, 8] \<rparr>"
    by code_simp
  have q: "state_dict (postprocess_layer (scenario_encoder 2)) = [2, 8]"
    by code_simp
  have l: "length (layer_modules (scenario_encoder 2)) = 2"
    "length (layer_modules (projr (scenario_decoder 2 1 2))) = 2"
    by code_simp+
  have "(1::int) \<le> 2" by simp
  from add_layers_splices [OF this p, of shapes "scenario_encoder 2"] q l show ?thesis
    by simp
qed

text \<open>
  The claim as stated fails on a decoder constructed with another version, which has no
  post-processing unit: \<^verbatim>\<open>add_layers(1)\<close> raises an attribute error and appends no layer.
\<close>

theorem add_layers_without_postprocess:
  "fst (decoder_add_layers shapes (projr (scenario_decoder 2 2 2)) 1) = Some AttributeError
   \<and> layer_modules (snd (decoder_add_layers shapes (projr (scenario_decoder 2 2 2)) 1))
       = layer_modules (projr (scenario_decoder 2 2 2))"
  by code_simp

subsection \<open>The incremental step\<close>

lemma step_loop_trace:
  "\<exists>qs. fst (step_loop T i ls out bank mt ms buffer cov ob trace) =
           trace @ map (\<lambda>(j, q). LayerStep j q) qs
        \<and> (\<forall>(j, q) \<in> set qs. size_one T q = 1)"
proof (induction ls arbitrary: i out cov ob trace)
  case Nil
  show ?case by (rule exI [of _ "[]"]) simp
next
  case (Cons layer rest)
  show ?case
  proof (cases "layer_buffer buffer i")
    case (Inl e)
    then show ?thesis by (intro exI [of _ "[]"]) simp
  next
    case (Inr b)
    show ?thesis
    proof (cases "size_one T out = 1 \<and> i < length bank")
      case False
      with Inr show ?thesis
        by (intro exI [of _ "[]"]) (auto simp add: item_nat)
    next
      case True
      obtain out' cov' b' where r: "decoder_layer_step T layer out (bank ! i) mt ms b = (out', cov', b')"
        by (cases "decoder_layer_step T layer out (bank ! i) mt ms b") auto
      from Cons.IH [of "Suc i" out' "Some cov'" "ob @ [b']" "trace @ [LayerStep i out]"]
      obtain qs where qs:
        "fst (step_loop T (Suc i) rest out' bank mt ms buffer (Some cov') (ob @ [b'])
               (trace @ [LayerStep i out])) =
           (trace @ [LayerStep i out]) @ map (\<lambda>(j, q). LayerStep j q) qs"
        "\<forall>(j, q) \<in> set qs. size_one T q = 1"
        by blast
      from True Inr r qs show ?thesis
        by (intro exI [of _ "(i, out) # qs"]) (simp add: item_nat)
    qed
  qed
qed

lemma step_time_trace:
  "fst (step_time T self input emb buffer) = []
   \<or> fst (step_time T self input emb buffer) = [Recurrent None]"
  by (simp add: step_time_def previous_hidden_def
      split: option.splits time_module.splits sum.splits prod.splits)

lemma decoder_step_trace:
  "fst (decoder_step T C self input bank src buffer) =
     (case last_position input of
        Inl e \<Rightarrow> []
      | Inr input' \<Rightarrow>
          (case step_time T self input
                  (if time self = ''positional_encoding''
                   then mul_sqrt T (embedding T (word_lut self) input') (model_size self)
                   else embedding T (word_lut self) input') buffer of
             (tr, buf, Inl e) \<Rightarrow> tr
           | (tr, buf, Inr r) \<Rightarrow>
               fst (step_loop T 0 (layer_modules self)
                      (prepost T (preprocess_layer self) (untuple r)) bank
                      (last_row T (target_mask T C self input)) (eq_unsqueeze T src (PAD C))
                      buf None [] tr)))"
  by (simp add: decoder_step_def Let_def split: sum.splits prod.splits)

lemma decoder_step_events:
  assumes "ev \<in> set (fst (decoder_step T C self input bank src buffer))"
  shows "ev = Recurrent None \<or> (\<exists>j q. ev = LayerStep j q \<and> size_one T q = 1)"
proof (cases "last_position input")
  case (Inl e)
  with assms show ?thesis by (simp add: decoder_step_trace)
next
  case (Inr input')
  let ?emb = "if time self = ''positional_encoding''
              then mul_sqrt T (embedding T (word_lut self) input') (model_size self)
              else embedding T (word_lut self) input'"
  obtain tr buf res where st: "step_time T self input ?emb buffer = (tr, buf, res)"
    by (cases "step_time T self input ?emb buffer") auto
  with step_time_trace [of T self input ?emb buffer]
  have tr: "tr = [] \<or> tr = [Recurrent None]" by simp
  show ?thesis
  proof (cases res)
    case (Inl e)
    with assms Inr st tr show ?thesis by (auto simp add: decoder_step_trace)
  next
    case r: (Inr r)
    from step_loop_trace [of T 0 "layer_modules self"
        "prepost T (preprocess_layer self) (untuple r)" bank
        "last_row T (target_mask T C self input)" "eq_unsqueeze T src (PAD C)" buf None "[]" tr]
    obtain qs where qs:
      "fst (step_loop T 0 (layer_modules self) (prepost T (preprocess_layer self) (untuple r))
              bank (last_row T (target_mask T C self input)) (eq_unsqueeze T src (PAD C))
              buf None [] tr) = tr @ map (\<lambda>(j, q). LayerStep j q) qs"
      "\<forall>(j, q) \<in> set qs. size_one T q = 1"
      by blast
    from assms Inr st r qs(1) have "ev \<in> set tr \<or> ev \<in> set (map (\<lambda>(j, q). LayerStep j q) qs)"
      by (simp add: decoder_step_trace)
    with tr qs(2) show ?thesis by auto
  qed
qed

lemma decoder_step_result:
  "decoder_step T C self input bank src buffer =
     (case last_position input of
        Inl e \<Rightarrow> ([], buffer, Inl e)
      | Inr input' \<Rightarrow>
          (case step_time T self input
                  (if time self = ''positional_encoding''
                   then mul_sqrt T (embedding T (word_lut self) input') (model_size self)
                   else embedding T (word_lut self) input') buffer of
             (tr, buf, Inl e) \<Rightarrow> (tr, buf, Inl e)
           | (tr, buf, Inr r) \<Rightarrow>
               (case step_loop T 0 (layer_modules self)
                       (prepost T (preprocess_layer self) (untuple r)) bank
                       (last_row T (target_mask T C self input)) (eq_unsqueeze T src (PAD C))
                       buf None [] tr of
                  (tr', Inl e) \<Rightarrow> (tr', buf, Inl e)
                | (tr', Inr (output, coverage, output_buffer)) \<Rightarrow>
                    (case stack output_buffer of
                       Inl e \<Rightarrow> (tr', buf, Inl e)
                     | Inr new_buffer \<Rightarrow>
                         (case decoder_finish T self output coverage of
                            Inl e \<Rightarrow> (tr', buf, Inl e)
                          | Inr (output, coverage) \<Rightarrow>
                              (tr', buf, Inr (output, coverage, new_buffer)))))))"
  by (simp add: decoder_step_def Let_def split: sum.splits prod.splits)

lemma last_position_eq:
  "last_position input =
     (if size1 input = 0 then Inl IndexError else Inr (map (\<lambda>row. [last row]) input))"
  by (simp add: last_position_def)

lemma step_loop_member:
  "LayerStep j q \<in> set (fst (step_loop T i ls out bank mt ms buffer cov ob trace)) \<Longrightarrow>
   LayerStep j q \<in> set trace \<or> i < j \<or> (j = i \<and> q = out)"
proof (induction ls arbitrary: i out cov ob trace)
  case Nil
  then show ?case by simp
next
  case (Cons layer rest)
  show ?case
  proof (cases "layer_buffer buffer i")
    case (Inl e)
    with Cons.prems show ?thesis by simp
  next
    case (Inr b)
    show ?thesis
    proof (cases "size_one T out = 1 \<and> i < length bank")
      case False
      with Inr Cons.prems show ?thesis
        by (auto simp add: item_nat split: if_splits)
    next
      case True
      obtain out' cov' b' where r: "decoder_layer_step T layer out (bank ! i) mt ms b = (out', cov', b')"
        by (cases "decoder_layer_step T layer out (bank ! i) mt ms b") auto
      from Cons.prems True Inr r
      have "LayerStep j q \<in> set (fst (step_loop T (Suc i) rest out' bank mt ms buffer (Some cov')
               (ob @ [b']) (trace @ [LayerStep i out])))"
        by (simp add: item_nat)
      from Cons.IH [OF this] show ?thesis
        by auto
    qed
  qed
qed

lemma step_loop_first:
  assumes "layer_buffer buffer i = Inr b" and "size_one T out = 1" and "i < length bank"
  shows "LayerStep i out \<in>
    set (fst (step_loop T i (layer # rest) out bank mt ms buffer cov ob trace))"
proof -
  obtain out' cov' b' where r: "decoder_layer_step T layer out (bank ! i) mt ms b = (out', cov', b')"
    by (cases "decoder_layer_step T layer out (bank ! i) mt ms b") auto
  from step_loop_trace [of T "Suc i" rest out' bank mt ms buffer "Some cov'" "ob @ [b']"
      "trace @ [LayerStep i out]"]
  obtain qs where
    "fst (step_loop T (Suc i) rest out' bank mt ms buffer (Some cov') (ob @ [b'])
           (trace @ [LayerStep i out])) =
       (trace @ [LayerStep i out]) @ map (\<lambda>(j, q). LayerStep j q) qs"
    by blast
  with assms r show ?thesis
    by (simp add: item_nat)
qed

lemma step_loop_assert:
  "layer_buffer buffer i = Inr b \<Longrightarrow> size_one T out \<noteq> 1 \<Longrightarrow>
   step_loop T i (layer # rest) out bank mt ms buffer cov ob trace = (trace, Inl AssertionError)"
  by simp

lemma step_time_no_layer:
  "LayerStep j q \<notin> set (fst (step_time T self input emb buffer))"
  using step_time_trace [of T self input emb buffer] by auto

lemma decoder_step_unfold:
  assumes "size1 input \<noteq> 0"
    and "step_time T self input (step_embedding T self input) buffer = (tr, buf, res)"
  shows "decoder_step T C self input bank src buffer =
     (case res of
        Inl e \<Rightarrow> (tr, buf, Inl e)
      | Inr r \<Rightarrow>
          (case step_loop T 0 (layer_modules self)
                  (prepost T (preprocess_layer self) (untuple r)) bank
                  (last_row T (target_mask T C self input)) (eq_unsqueeze T src (PAD C))
                  buf None [] tr of
             (tr', Inl e) \<Rightarrow> (tr', buf, Inl e)
           | (tr', Inr (output, coverage, output_buffer)) \<Rightarrow>
               (case stack output_buffer of
                  Inl e \<Rightarrow> (tr', buf, Inl e)
                | Inr new_buffer \<Rightarrow>
                    (case decoder_finish T self output coverage of
                       Inl e \<Rightarrow> (tr', buf, Inl e)
                     | Inr (output, coverage) \<Rightarrow>
                         (tr', buf, Inr (output, coverage, new_buffer))))))"
  using assms
  by (simp add: decoder_step_result last_position_eq step_embedding_def)

lemma decoder_step_first_query:
  assumes "LayerStep 0 q \<in> set (fst (decoder_step T C self input bank src buffer))"
  shows "size1 input \<noteq> 0 \<and>
    (\<exists>tr buf r. step_time T self input (step_embedding T self input) buffer = (tr, buf, Inr r)
        \<and> q = prepost T (preprocess_layer self) (untuple r))"
proof -
  have s: "size1 input \<noteq> 0"
  proof
    assume "size1 input = 0"
    with assms show False
      by (simp add: decoder_step_result last_position_eq)
  qed
  obtain tr buf res where st:
    "step_time T self input (step_embedding T self input) buffer = (tr, buf, res)"
    by (cases "step_time T self input (step_embedding T self input) buffer") auto
  from step_time_no_layer [of 0 q T self input "step_embedding T self input" buffer] st
  have no: "LayerStep 0 q \<notin> set tr" by simp
  show ?thesis
  proof (cases res)
    case (Inl e)
    with assms no st s show ?thesis
      by (simp add: decoder_step_unfold [OF s st])
  next
    case (Inr r)
    let ?q = "prepost T (preprocess_layer self) (untuple r)"
    let ?loop = "step_loop T 0 (layer_modules self) ?q bank
        (last_row T (target_mask T C self input)) (eq_unsqueeze T src (PAD C)) buf None [] tr"
    have "fst (decoder_step T C self input bank src buffer) = fst ?loop"
      using Inr by (simp add: decoder_step_unfold [OF s st] split: prod.splits sum.splits)
    with assms have "LayerStep 0 q \<in> set (fst ?loop)" by simp
    from step_loop_member [OF this] no have "q = ?q" by simp
    with s st Inr show ?thesis by blast
  qed
qed

lemma decoder_step_assert:
  assumes "size1 input \<noteq> 0"
    and "step_time T self input (step_embedding T self input) buffer = (tr, buf, Inr r)"
    and "layer_modules self \<noteq> []" and "layer_buffer buf 0 = Inr b"
    and "size_one T (prepost T (preprocess_layer self) (untuple r)) \<noteq> 1"
  shows "decoder_step T C self input bank src buffer = (tr, buf, Inl AssertionError)"
proof -
  from assms(3) obtain layer rest where ls: "layer_modules self = layer # rest"
    by (cases "layer_modules self") auto
  from assms(4,5) show ?thesis
    by (simp add: decoder_step_unfold [OF assms(1,2)] ls)
qed

lemma decoder_step_receives:
  assumes "size1 input \<noteq> 0"
    and "step_time T self input (step_embedding T self input) buffer = (tr, buf, Inr r)"
    and "layer_modules self \<noteq> []" and "layer_buffer buf 0 = Inr b"
    and "size_one T (prepost T (preprocess_layer self) (untuple r)) = 1"
    and "bank \<noteq> []"
  shows "LayerStep 0 (prepost T (preprocess_layer self) (untuple r))
    \<in> set (fst (decoder_step T C self input bank src buffer))"
proof -
  from assms(3) obtain layer rest where ls: "layer_modules self = layer # rest"
    by (cases "layer_modules self") auto
  let ?q = "prepost T (preprocess_layer self) (untuple r)"
  let ?loop = "step_loop T 0 (layer # rest) ?q bank
      (last_row T (target_mask T C self input)) (eq_unsqueeze T src (PAD C)) buf None [] tr"
  have "fst (decoder_step T C self input bank src buffer) = fst ?loop"
    by (simp add: decoder_step_unfold [OF assms(1,2)] ls split: prod.splits sum.splits)
  moreover from assms(6) have "0 < length bank" by simp
  from step_loop_first [OF assms(4,5) this] have "LayerStep 0 ?q \<in> set (fst ?loop)" .
  ultimately show ?thesis by simp
qed

text \<open>
  C9. In every step call the query that a layer's incremental step receives has sequence
  length exactly 1. The step takes the last id of every input row, one position per row,
  before the layer loop (an input without a position raises an index error): the query
  that layer 0 receives is the pre-processed time encoding of the embedding of these last
  ids, and layer 0 does receive it when its length is 1. The loop asserts the length before
  every \<^verbatim>\<open>layer.step\<close>: a query of another length, once the layer's buffer has been read,
  ends the call with an assertion error, and no layer receives it.
\<close>

theorem step_query_length_one:
  "(\<forall>j q. LayerStep j q \<in> set (fst (decoder_step T C self input bank src buffer))
           \<longrightarrow> size_one T q = 1)
   \<and> (size1 input = 0
        \<longrightarrow> decoder_step T C self input bank src buffer = ([], buffer, Inl IndexError))
   \<and> (\<forall>q. LayerStep 0 q \<in> set (fst (decoder_step T C self input bank src buffer))
        \<longrightarrow> size1 input \<noteq> 0
            \<and> (\<exists>tr buf r. step_time T self input (step_embedding T self input) buffer
                             = (tr, buf, Inr r)
                  \<and> q = prepost T (preprocess_layer self) (untuple r)))
   \<and> (\<forall>tr buf r b.
         size1 input \<noteq> 0
         \<and> step_time T self input (step_embedding T self input) buffer = (tr, buf, Inr r)
         \<and> layer_modules self \<noteq> [] \<and> layer_buffer buf 0 = Inr b
        \<longrightarrow> (if size_one T (prepost T (preprocess_layer self) (untuple r)) = 1
             then bank \<noteq> [] \<longrightarrow>
                  LayerStep 0 (prepost T (preprocess_layer self) (untuple r))
                    \<in> set (fst (decoder_step T C self input bank src buffer))
             else decoder_step T C self input bank src buffer = (tr, buf, Inl AssertionError)))
   \<and> (\<forall>input'. last_position input = Inr input'
           \<longrightarrow> input' = map (\<lambda>row. [last row]) input
               \<and> length input' = length input \<and> (\<forall>row \<in> set input'. length row = 1))
   \<and> (\<forall>b. layer_buffer buffer i = Inr b \<and> size_one T output \<noteq> 1
           \<longrightarrow> step_loop T i (layer # rest) output bank mask_tgt mask_src buffer coverage
                 output_buffer trace = (trace, Inl AssertionError))"
proof -
  have a: "\<forall>j q. LayerStep j q \<in> set (fst (decoder_step T C self input bank src buffer))
      \<longrightarrow> size_one T q = 1"
    using decoder_step_events [of _ T C self input bank src buffer] by fastforce
  have b: "size1 input = 0
      \<longrightarrow> decoder_step T C self input bank src buffer = ([], buffer, Inl IndexError)"
    by (simp add: decoder_step_result last_position_eq)
  have c: "\<forall>q. LayerStep 0 q \<in> set (fst (decoder_step T C self input bank src buffer))
      \<longrightarrow> size1 input \<noteq> 0
          \<and> (\<exists>tr buf r. step_time T self input (step_embedding T self input) buffer
                           = (tr, buf, Inr r)
                \<and> q = prepost T (preprocess_layer self) (untuple r))"
    using decoder_step_first_query [of _ T C self input bank src buffer] by blast
  have d: "\<forall>tr buf r b.
       size1 input \<noteq> 0
       \<and> step_time T self input (step_embedding T self input) buffer = (tr, buf, Inr r)
       \<and> layer_modules self \<noteq> [] \<and> layer_buffer buf 0 = Inr b
      \<longrightarrow> (if size_one T (prepost T (preprocess_layer self) (untuple r)) = 1
           then bank \<noteq> [] \<longrightarrow>
                LayerStep 0 (prepost T (preprocess_layer self) (untuple r))
                  \<in> set (fst (decoder_step T C self input bank src buffer))
           else decoder_step T C self input bank src buffer = (tr, buf, Inl AssertionError))"
    using decoder_step_assert [of input T self buffer _ _ _ _ C bank src]
      decoder_step_receives [of input T self buffer _ _ _ _ bank C src]
    by (auto split: if_splits)
  have e: "\<forall>input'. last_position input = Inr input'
      \<longrightarrow> input' = map (\<lambda>row. [last row]) input
          \<and> length input' = length input \<and> (\<forall>row \<in> set input'. length row = 1)"
    by (auto simp add: last_position_def split: if_splits)
  have f: "\<forall>b. layer_buffer buffer i = Inr b \<and> size_one T output \<noteq> 1
      \<longrightarrow> step_loop T i (layer # rest) output bank mask_tgt mask_src buffer coverage
            output_buffer trace = (trace, Inl AssertionError)"
    by simp
  from a b c d e f show ?thesis by blast
qed

theorem step_query_length_one_witness:
  "fst (decoder_step shapes scenario_constants (projr (scenario_decoder 2 1 2)) scenario_target
          [[1, 3, 8], [1, 3, 8]] scenario_source None)
     = [LayerStep 0 [1, 1, 8], LayerStep 1 [1, 1, 8]]
   \<and> size_one shapes [1, 1, 8] = 1
   \<and> step_time shapes (projr (scenario_decoder 2 1 2)) scenario_target
        (step_embedding shapes (projr (scenario_decoder 2 1 2)) scenario_target) None
     = ([], None, Inr (Tensor [1, 1, 8]))
   \<and> LayerStep 0 (prepost shapes (preprocess_layer (projr (scenario_decoder 2 1 2)))
                     (untuple (Tensor [1, 1, 8])))
       \<in> set (fst (decoder_step shapes scenario_constants (projr (scenario_decoder 2 1 2))
                      scenario_target [[1, 3, 8], [1, 3, 8]] scenario_source None))
   \<and> decoder_step wide scenario_constants (projr (scenario_decoder 2 1 2)) scenario_target
        [[1, 3, 8], [1, 3, 8]] scenario_source None = ([], None, Inl AssertionError)
   \<and> last_position scenario_target = Inr [[0]]
   \<and> step_loop shapes 0 (layer_modules (projr (scenario_decoder 2 1 2))) [1, 2, 8]
        [[1, 3, 8], [1, 3, 8]] [1, 1, 2] [1, 1, 3] None None [] []
     = ([], Inl AssertionError)"
proof -
  let ?d = "projr (scenario_decoder 2 1 2)"
  let ?bank = "[[1, 3, 8], [1, 3, 8 :: nat]]"
  have t: "fst (decoder_step shapes scenario_constants ?d scenario_target ?bank
                  scenario_source None)
             = [LayerStep 0 [1, 1, 8], LayerStep 1 [1, 1, 8]]"
    by code_simp
  have l: "last_position scenario_target = Inr [[0]]"
    by code_simp
  have s: "size1 scenario_target \<noteq> 0"
    by code_simp
  have st: "step_time shapes ?d scenario_target (step_embedding shapes ?d scenario_target) None
      = ([], None, Inr (Tensor [1, 1, 8]))"
    by code_simp
  have st': "step_time wide ?d scenario_target (step_embedding wide ?d scenario_target) None
      = ([], None, Inr (Tensor [1, 1, 8]))"
    by code_simp
  have n: "layer_modules ?d \<noteq> []" "?bank \<noteq> []"
    by code_simp+
  have lb: "layer_buffer (None :: nat list list option) 0 = Inr None"
    by (simp add: layer_buffer_def)
  have one: "size_one shapes (prepost shapes (preprocess_layer ?d) (untuple (Tensor [1, 1, 8]))) = 1"
    by code_simp
  have two: "size_one wide (prepost wide (preprocess_layer ?d) (untuple (Tensor [1, 1, 8]))) \<noteq> 1"
    by code_simp
  have m: "layer_modules ?d = [new_DecoderLayer shapes 2 8 0 16 0, new_DecoderLayer shapes 2 8 0 16 0]"
    by (simp add: scenario_decoder_def decoder_init_def scenario_opt_def eval_nat_numeral)
  have b: "layer_buffer (None :: nat list list option) 0 = Inr None \<and> size_one shapes [1, 2, 8] \<noteq> 1"
    by (simp add: layer_buffer_def shapes_def)
  note w = step_query_length_one [of shapes scenario_constants ?d scenario_target
      ?bank scenario_source None 0 "[1, 2, 8]"
      "new_DecoderLayer shapes 2 8 0 16 0" "[new_DecoderLayer shapes 2 8 0 16 0]"
      "[1, 1, 2]" "[1, 1, 3]" None "[]" "[]"]
  note w' = step_query_length_one [of wide scenario_constants ?d scenario_target
      ?bank scenario_source None 0 "[1, 2, 8]"
      "new_DecoderLayer shapes 2 8 0 16 0" "[new_DecoderLayer shapes 2 8 0 16 0]"
      "[1, 1, 2]" "[1, 1, 3]" None "[]" "[]"]
  from w have "size_one shapes [1, 1, 8] = 1"
    unfolding t by simp
  moreover from w s st n lb one
  have "LayerStep 0 (prepost shapes (preprocess_layer ?d) (untuple (Tensor [1, 1, 8])))
      \<in> set (fst (decoder_step shapes scenario_constants ?d scenario_target ?bank
                     scenario_source None))"
    by meson
  moreover from w' s st' n lb two
  have "decoder_step wide scenario_constants ?d scenario_target ?bank scenario_source None
      = ([], None, Inl AssertionError)"
    by meson
  moreover from w b have "step_loop shapes 0 (layer_modules ?d) [1, 2, 8]
        ?bank [1, 1, 2] [1, 1, 3] None None [] [] = ([], Inl AssertionError)"
    unfolding m by blast
  ultimately show ?thesis using t l st by simp
qed

subsection \<open>The recurrent time encoder in a step\<close>

lemma set_first_overwrite:
  "set_first (buf[0 := x]) h = set_first buf h"
  by (simp add: set_first_def)

lemma step_time_overwrite:
  assumes "time self \<noteq> ''positional_encoding''"
  shows "fst (step_time T self input emb (Some (buf[0 := x])))
           = fst (step_time T self input emb (Some buf))
         \<and> snd (snd (step_time T self input emb (Some (buf[0 := x]))))
           = snd (snd (step_time T self input emb (Some buf)))
         \<and> (\<forall>r. snd (snd (step_time T self input emb (Some buf))) = Inr r \<longrightarrow>
               fst (snd (step_time T self input emb (Some (buf[0 := x]))))
                 = fst (snd (step_time T self input emb (Some buf))))"
  using assms
  by (simp add: step_time_def previous_hidden_def set_first_overwrite
      split: option.splits time_module.splits sum.splits prod.splits)

lemma decoder_step_overwrite:
  assumes "time self \<noteq> ''positional_encoding''"
  shows "fst (decoder_step T C self input bank src (Some (buf[0 := x])))
           = fst (decoder_step T C self input bank src (Some buf))
         \<and> snd (snd (decoder_step T C self input bank src (Some (buf[0 := x]))))
           = snd (snd (decoder_step T C self input bank src (Some buf)))"
proof (cases "last_position input")
  case (Inl e)
  then show ?thesis by (simp add: decoder_step_result)
next
  case (Inr input')
  let ?emb = "embedding T (word_lut self) input'"
  obtain tr b res where s: "step_time T self input ?emb (Some buf) = (tr, b, res)"
    by (cases "step_time T self input ?emb (Some buf)") auto
  obtain tr' b' res' where s': "step_time T self input ?emb (Some (buf[0 := x])) = (tr', b', res')"
    by (cases "step_time T self input ?emb (Some (buf[0 := x]))") auto
  from step_time_overwrite [OF assms, of T input ?emb buf x] s s'
  have eq: "tr' = tr" "res' = res" "\<forall>r. res = Inr r \<longrightarrow> b' = b"
    by simp_all
  show ?thesis
  proof (cases res)
    case (Inl e)
    with Inr assms s s' eq show ?thesis by (simp add: decoder_step_result)
  next
    case r: (Inr r)
    with eq have "b' = b" by simp
    with Inr assms s s' eq r show ?thesis by (simp add: decoder_step_result)
  qed
qed

lemma decoder_step_recurrent_first:
  assumes "time self \<noteq> ''positional_encoding''"
    and "time_transformer self = Some (GRU w) \<or> time_transformer self = Some (LSTM w)"
    and "size1 input \<noteq> 0"
  shows "take 1 (fst (decoder_step T C self input bank src (Some buf))) = [Recurrent None]"
proof -
  let ?input' = "map (\<lambda>row. [last row]) input"
  let ?emb = "embedding T (word_lut self) ?input'"
  from assms(3) have lp: "last_position input = Inr ?input'"
    by (simp add: last_position_def)
  obtain tr b res where s: "step_time T self input ?emb (Some buf) = (tr, b, res)"
    by (cases "step_time T self input ?emb (Some buf)") auto
  from assms(1,2) have "fst (step_time T self input ?emb (Some buf)) = [Recurrent None]"
    by (auto simp add: step_time_def previous_hidden_def split: prod.splits sum.splits)
  with s have tr: "tr = [Recurrent None]" by simp
  show ?thesis
  proof (cases res)
    case (Inl e)
    with lp s tr assms(1) show ?thesis by (simp add: decoder_step_trace)
  next
    case (Inr r)
    from step_loop_trace [of T 0 "layer_modules self"
        "prepost T (preprocess_layer self) (untuple r)" bank
        "last_row T (target_mask T C self input)" "eq_unsqueeze T src (PAD C)" b None "[]" tr]
    obtain qs where
      "fst (step_loop T 0 (layer_modules self) (prepost T (preprocess_layer self) (untuple r))
              bank (last_row T (target_mask T C self input)) (eq_unsqueeze T src (PAD C))
              b None [] tr) = tr @ map (\<lambda>(j, q). LayerStep j q) qs"
      by blast
    with lp s tr Inr assms(1) show ?thesis by (simp add: decoder_step_trace)
  qed
qed

text \<open>
  C10. In a step of the decoder under a recurrent time encoding (\<^verbatim>\<open>'gru'\<close> or
  \<^verbatim>\<open>'lstm'\<close>): on every call with a buffer, every previous hidden state that the recurrent
  time transformer receives is \<^verbatim>\<open>None\<close>, and it does receive one, first of all, when the
  module is there and the input has a position; the hidden state kept in \<^verbatim>\<open>buffer[0]\<close> is
  never read, the trace and the outcome being the same whatever it holds. Every call
  without a buffer raises before the layer loop: no layer is stepped.
\<close>

theorem recurrent_step_previous_hidden:
  assumes "time self = ''gru'' \<or> time self = ''lstm''"
  shows "(\<forall>h. Recurrent h \<in> set (fst (decoder_step T C self input bank src (Some buf)))
              \<longrightarrow> h = None)
         \<and> ((time_transformer self = Some (GRU w) \<or> time_transformer self = Some (LSTM w))
              \<and> size1 input \<noteq> 0
              \<longrightarrow> take 1 (fst (decoder_step T C self input bank src (Some buf)))
                    = [Recurrent None])
         \<and> fst (decoder_step T C self input bank src (Some (buf[0 := x])))
             = fst (decoder_step T C self input bank src (Some buf))
         \<and> snd (snd (decoder_step T C self input bank src (Some (buf[0 := x]))))
             = snd (snd (decoder_step T C self input bank src (Some buf)))
         \<and> decoder_step T C self input bank src None
             = ([], None, Inl (if size1 input = 0 then IndexError else TypeError))"
proof -
  from assms have t: "time self \<noteq> ''positional_encoding''" by auto
  have a: "\<forall>h. Recurrent h \<in> set (fst (decoder_step T C self input bank src (Some buf)))
      \<longrightarrow> h = None"
    using decoder_step_events [of _ T C self input bank src "Some buf"] by fastforce
  have b: "(time_transformer self = Some (GRU w) \<or> time_transformer self = Some (LSTM w))
      \<and> size1 input \<noteq> 0
      \<longrightarrow> take 1 (fst (decoder_step T C self input bank src (Some buf))) = [Recurrent None]"
    using decoder_step_recurrent_first [OF t] by blast
  have c: "decoder_step T C self input bank src None
      = ([], None, Inl (if size1 input = 0 then IndexError else TypeError))"
    using t
    by (simp add: decoder_step_result last_position_def step_time_def previous_hidden_def)
  from a b c decoder_step_overwrite [OF t, of T C input bank src buf x] show ?thesis
    by blast
qed

theorem recurrent_step_previous_hidden_witness:
  "fst (decoder_step shapes scenario_constants (projr scenario_recurrent_decoder) scenario_target
          [[1, 3, 8], [1, 3, 8]] scenario_source (Some [[1, 1, 8], [1, 1, 8]]))
     = [Recurrent None, LayerStep 0 [1, 1, 8], LayerStep 1 [1, 1, 8]]
   \<and> decoder_step shapes scenario_constants (projr scenario_recurrent_decoder) scenario_target
       [[1, 3, 8], [1, 3, 8]] scenario_source None = ([], None, Inl TypeError)"
proof -
  let ?d = "projr scenario_recurrent_decoder"
  have g: "time ?d = ''gru'' \<or> time ?d = ''lstm''"
    by code_simp
  have s: "size1 scenario_target \<noteq> 0"
    by code_simp
  have t: "fst (decoder_step shapes scenario_constants ?d scenario_target
                  [[1, 3, 8], [1, 3, 8]] scenario_source (Some [[1, 1, 8], [1, 1, 8]]))
             = [Recurrent None, LayerStep 0 [1, 1, 8], LayerStep 1 [1, 1, 8]]"
    by code_simp
  from recurrent_step_previous_hidden [OF g, of shapes scenario_constants scenario_target
      "[[1, 3, 8], [1, 3, 8]]" scenario_source] s t
  show ?thesis
    by simp
qed

end
